theory Spec2Isabelle
  imports Main
begin

section \<open>Data model of the lending platform\<close>

text \<open>
  The contract \<open>LendingPlatform\<close> (contracts/LendingPlatform.sol, Solidity 0.8) is embedded
  as pure functions over an explicit contract state. Unsigned 256-bit integers are natural
  numbers with the compiler's overflow checks written out: an arithmetic operation whose
  result leaves the range reverts with a panic. A revert is the \<open>Inl\<close> branch of a sum;
  since a revert rolls the whole transaction back, a failed call leaves the state it
  started from. A successful call returns the new state and, in the order the code performs
  them, the value transfers it makes and the events it emits. An outbound transfer either
  goes through or fails, as the environment says; what the recipient's code does beyond
  that (a callback into the contract, which the reentrancy guard of the guarded entry points
  refuses) and the balances of the accounts are not modelled.
\<close>

type_synonym address = nat
type_synonym uint256 = nat
type_synonym bytes32 = nat

datatype leg = BorrowerLeg | LenderLeg | CollateralReturnLeg | RefundLeg | BonusLeg | CollateralLeg

datatype error =
    Reentrant              \<comment> \<open>ReentrancyGuard: reentrant call\<close>
  | OnlyOwner              \<comment> \<open>Only owner\<close>
  | Paused                 \<comment> \<open>Paused\<close>
  | InvalidAmount          \<comment> \<open>Loan amount must be greater than 0\<close>
  | InvalidDuration        \<comment> \<open>Duration must be greater than 0\<close>
  | CollateralMismatch     \<comment> \<open>Collateral must be exactly 2x loan amount\<close>
  | RateTooHigh            \<comment> \<open>Interest rate exceeds maximum allowed (7%)\<close>
  | RateZero               \<comment> \<open>Interest rate must be greater than 0\<close>
  | RequestNotActive       \<comment> \<open>Request is not active\<close>
  | AmountMismatch         \<comment> \<open>Must send exact loan amount\<close>
  | NotBorrower            \<comment> \<open>Only borrower can repay\<close>
  | AlreadyRepaid          \<comment> \<open>Loan already repaid / Loan is already repaid / Loan repaid\<close>
  | InvalidRepayAmount     \<comment> \<open>Invalid repay amount\<close>
  | InsufficientPayment    \<comment> \<open>Insufficient repayment\<close>
  | NotExpired             \<comment> \<open>Loan is not expired yet\<close>
  | InvalidPrice           \<comment> \<open>Invalid oracle price\<close>
  | StalePrice             \<comment> \<open>Stale oracle price\<close>
  | TransferFailed leg     \<comment> \<open>one of the six "... transfer failed" messages\<close>
  | ZeroAddress            \<comment> \<open>zero address\<close>
  | BonusTooHigh           \<comment> \<open>bonus too high\<close>
  | PenaltyTooHigh         \<comment> \<open>penalty too high\<close>
  | PriceZero              \<comment> \<open>price=0\<close>
  | FeedCallFailed         \<comment> \<open>the external call to the feed itself reverted\<close>
  | Overflow               \<comment> \<open>Panic(0x11): checked arithmetic left the uint256 range\<close>
  | DivisionByZero         \<comment> \<open>Panic(0x12)\<close>

text \<open>
  Modelled from the spec: the struct declarations \<open>LoanTypes.LoanRequest\<close> and
  \<open>LoanTypes.ActiveLoan\<close> are in a file that is not part of the repository snapshot. Their
  fields are the ones the spec's data model lists and \<open>LendingPlatform.sol\<close> reads and
  writes; the fields of a request carry the prefix \<open>rq_\<close>.
\<close>

record LoanRequest =
  rq_borrower :: address
  rq_loanAmount :: uint256
  rq_duration :: uint256
  rq_isActive :: bool
  rq_stake :: uint256
  rq_interestRate :: uint256
  rq_metadataCommitment :: bytes32
  rq_encryptedCid :: string
  rq_propertyIdCommitment :: bytes32
  rq_appraisalEncryptedCid :: string
  rq_propertyUnits :: uint256

record ActiveLoan =
  borrower :: address
  lender :: address
  loanAmount :: uint256
  stake :: uint256
  startTimestamp :: uint256
  endTime :: uint256
  interestRate :: uint256
  initialEthPrice :: uint256
  propertyUnits :: uint256
  isRepaid :: bool

text \<open>A storage slot never written reads as the zero value of its type.\<close>

definition zeroRequest :: LoanRequest where
  "zeroRequest = \<lparr> rq_borrower = 0, rq_loanAmount = 0, rq_duration = 0, rq_isActive = False,
     rq_stake = 0, rq_interestRate = 0, rq_metadataCommitment = 0, rq_encryptedCid = [],
     rq_propertyIdCommitment = 0, rq_appraisalEncryptedCid = [], rq_propertyUnits = 0 \<rparr>"

definition zeroLoan :: ActiveLoan where
  "zeroLoan = \<lparr> borrower = 0, lender = 0, loanAmount = 0, stake = 0, startTimestamp = 0,
     endTime = 0, interestRate = 0, initialEthPrice = 0, propertyUnits = 0, isRepaid = False \<rparr>"

datatype reentrancy = ENTERED | NOT_ENTERED

text \<open>
  The contract's storage: the state variables of \<open>LendingPlatform\<close> (lines 16 to 35, and
  the two index maps of lines 364 to 365), and those it inherits from \<open>LoanStorage\<close>.
\<close>

text \<open>
  Modelled from the spec: the two maps \<open>loanRequests\<close> and \<open>activeLoans\<close> and the two
  counters \<open>totalRequests\<close> and \<open>totalLoans\<close> are declared in the storage layer
  \<open>LoanStorage\<close>, which is not part of the repository snapshot; the spec's ledger store
  "owns both maps plus two counters (next request id, next loan id)".
\<close>

record state =
  reentrancyStatus :: reentrancy
  ethUsdFeed :: address
  demoFixedEthUsdPrice :: uint256
  realEstateOracle :: address
  owner :: address
  paused :: bool
  overdueRepayPenaltyBp :: uint256
  liquidationBonusBp :: uint256
  maxPriceStalenessSeconds :: uint256
  loanRequests :: "nat \<Rightarrow> LoanRequest"
  activeLoans :: "nat \<Rightarrow> ActiveLoan"
  totalRequests :: uint256
  totalLoans :: uint256
  borrowerToLoanIds :: "address \<Rightarrow> nat list"
  lenderToLoanIds :: "address \<Rightarrow> nat list"

text \<open>The answer of the price feed's \<open>latestRoundData\<close>.\<close>

record roundData =
  roundId :: nat
  answer :: int
  startedAt :: uint256
  updatedAt :: uint256
  answeredInRound :: nat

text \<open>
  What a call sees of its transaction and of the chain: the caller, the attached value, the
  block time, what each feed address answers (\<open>None\<close> when the call to it reverts) and
  whether an outbound value transfer to an address succeeds (which depends on the
  recipient's code and on the contract's balance, neither of which is modelled further).
\<close>

record env =
  sender :: address
  msgValue :: uint256
  timestamp :: uint256
  latestRoundData :: "address \<Rightarrow> roundData option"
  callSucceeds :: "address \<Rightarrow> uint256 \<Rightarrow> bool"

datatype event =
    LoanRequested nat address uint256 uint256 uint256 uint256
  | LoanFunded nat nat address uint256
  | LoanRepaid nat address address uint256
  | LoanLiquidated nat address uint256
  | OwnerUpdated address address
  | PausedBy address
  | UnpausedBy address
  | ParamsUpdated uint256 uint256 uint256
  | OracleUpdated address
  | RealEstateOracleUpdated address

text \<open>What a successful call does to the outside, in the order the code does it.\<close>

datatype effect = Send address uint256 | Emit event

type_synonym outcome = "error + (state \<times> effect list)"

section \<open>Checked arithmetic and control flow\<close>

definition MAX_UINT256 :: nat where
  "MAX_UINT256 = 2 ^ 256 - 1"

definition checked_add :: "uint256 \<Rightarrow> uint256 \<Rightarrow> error + uint256" where
  "checked_add a b = (if a + b \<le> MAX_UINT256 then Inr (a + b) else Inl Overflow)"

definition checked_sub :: "uint256 \<Rightarrow> uint256 \<Rightarrow> error + uint256" where
  "checked_sub a b = (if b \<le> a then Inr (a - b) else Inl Overflow)"

definition checked_mul :: "uint256 \<Rightarrow> uint256 \<Rightarrow> error + uint256" where
  "checked_mul a b = (if a * b \<le> MAX_UINT256 then Inr (a * b) else Inl Overflow)"

definition checked_div :: "uint256 \<Rightarrow> uint256 \<Rightarrow> error + uint256" where
  "checked_div a b = (if b = 0 then Inl DivisionByZero else Inr (a div b))"

definition bindE :: "error + 'a \<Rightarrow> ('a \<Rightarrow> error + 'b) \<Rightarrow> error + 'b" where
  "bindE m k = (case m of Inl e \<Rightarrow> Inl e | Inr x \<Rightarrow> k x)"

definition MAX_INTEREST_RATE :: uint256 where
  "MAX_INTEREST_RATE = 7"

definition SCALE :: uint256 where
  "SCALE = 10 ^ 18"

definition DAY :: uint256 where
  "DAY = 86400"

definition YEAR :: uint256 where
  "YEAR = 365 * 86400"

text \<open>
  The modifier \<open>nonReentrant\<close>: refuse when the guard is taken, take it, run the body,
  release it.
\<close>

definition nonReentrant :: "state \<Rightarrow> (state \<Rightarrow> outcome) \<Rightarrow> outcome" where
  "nonReentrant s body =
     (if reentrancyStatus s = ENTERED then Inl Reentrant
      else case body (s\<lparr>reentrancyStatus := ENTERED\<rparr>) of
             Inl e \<Rightarrow> Inl e
           | Inr (s', fx) \<Rightarrow> Inr (s'\<lparr>reentrancyStatus := NOT_ENTERED\<rparr>, fx))"

definition whenNotPaused :: "state \<Rightarrow> error + 'a \<Rightarrow> error + 'a" where
  "whenNotPaused s body = (if paused s then Inl Paused else body)"

definition onlyOwner :: "state \<Rightarrow> env \<Rightarrow> error + 'a \<Rightarrow> error + 'a" where
  "onlyOwner s e body = (if sender e = owner s then body else Inl OnlyOwner)"

text \<open>
  Modelled from the spec: \<open>getNextRequestId\<close> and \<open>getNextLoanId\<close> belong to the storage
  layer \<open>LoanStorage\<close>, whose source is not part of the repository snapshot. The spec says the
  ledger store "assigns monotonically increasing identifiers", "sequential integer ids
  starting at 0", from two counters (next request id, next loan id): each call returns the
  counter and advances it by one.
\<close>

definition getNextRequestId :: "state \<Rightarrow> nat \<times> state" where
  "getNextRequestId s = (totalRequests s, s\<lparr>totalRequests := totalRequests s + 1\<rparr>)"

definition getNextLoanId :: "state \<Rightarrow> nat \<times> state" where
  "getNextLoanId s = (totalLoans s, s\<lparr>totalLoans := totalLoans s + 1\<rparr>)"

section \<open>The price oracle adapter\<close>

text \<open>\<open>_getEthUsdPrice\<close>, lines 277 to 293.\<close>

definition getEthUsdPrice :: "state \<Rightarrow> env \<Rightarrow> error + uint256" where
  "getEthUsdPrice s e =
     (if ethUsdFeed s = 0 then Inr (demoFixedEthUsdPrice s)
      else case latestRoundData e (ethUsdFeed s) of
             None \<Rightarrow> Inl FeedCallFailed
           | Some rd \<Rightarrow>
               if \<not> (answer rd > 0) then Inl InvalidPrice
               else bindE (checked_sub (timestamp e) (updatedAt rd)) (\<lambda>age.
                    if \<not> (age \<le> maxPriceStalenessSeconds s) then Inl StalePrice
                    else checked_mul (nat (answer rd)) (10 ^ 10)))"

section \<open>The loan lifecycle\<close>

text \<open>\<open>createLoanRequest\<close>, lines 100 to 139.\<close>

definition createLoanRequest ::
  "state \<Rightarrow> env \<Rightarrow> uint256 \<Rightarrow> uint256 \<Rightarrow> uint256 \<Rightarrow> bytes32 \<Rightarrow> string \<Rightarrow> bytes32 \<Rightarrow> string \<Rightarrow> uint256
     \<Rightarrow> outcome" where
  "createLoanRequest s e amount durationInDays rate metadataCommitment encryptedCid
       propertyIdCommitment appraisalEncryptedCid units =
     whenNotPaused s
      (if \<not> (amount > 0) then Inl InvalidAmount
       else if \<not> (durationInDays > 0) then Inl InvalidDuration
       else bindE (checked_mul amount 2) (\<lambda>required.
         if msgValue e \<noteq> required then Inl CollateralMismatch
         else if \<not> (rate \<le> MAX_INTEREST_RATE) then Inl RateTooHigh
         else if \<not> (rate > 0) then Inl RateZero
         else
           let (requestId, s1) = getNextRequestId s;
               request = (loanRequests s1 requestId)
                 \<lparr> rq_borrower := sender e,
                   rq_loanAmount := amount,
                   rq_duration := durationInDays,
                   rq_isActive := True,
                   rq_stake := msgValue e,
                   rq_interestRate := rate,
                   rq_metadataCommitment := metadataCommitment,
                   rq_encryptedCid := encryptedCid,
                   rq_propertyIdCommitment := propertyIdCommitment,
                   rq_appraisalEncryptedCid := appraisalEncryptedCid,
                   rq_propertyUnits := units \<rparr>
           in Inr (s1\<lparr>loanRequests := (loanRequests s1)(requestId := request)\<rparr>,
                   [Emit (LoanRequested requestId (sender e) amount durationInDays rate (msgValue e))])))"

text \<open>\<open>fundLoanRequest\<close>, lines 141 to 175.\<close>

definition fundLoanRequest :: "state \<Rightarrow> env \<Rightarrow> nat \<Rightarrow> outcome" where
  "fundLoanRequest s0 e requestId =
     nonReentrant s0 (\<lambda>s. whenNotPaused s
      (let request = loanRequests s requestId in
       if \<not> rq_isActive request then Inl RequestNotActive
       else if msgValue e \<noteq> rq_loanAmount request then Inl AmountMismatch
       else
         let (loanId, s1) = getNextLoanId s in
         bindE (checked_mul (rq_duration request) DAY) (\<lambda>span.
         bindE (checked_add (timestamp e) span) (\<lambda>ending.
         bindE (getEthUsdPrice s1 e) (\<lambda>price.
           let loan = (activeLoans s1 loanId)
                 \<lparr> borrower := rq_borrower request,
                   lender := sender e,
                   loanAmount := rq_loanAmount request,
                   stake := rq_stake request,
                   startTimestamp := timestamp e,
                   endTime := ending,
                   interestRate := rq_interestRate request,
                   initialEthPrice := price,
                   propertyUnits := rq_propertyUnits request \<rparr>;
               s2 = s1\<lparr> activeLoans := (activeLoans s1)(loanId := loan),
                        loanRequests := (loanRequests s1)(requestId := request\<lparr>rq_isActive := False\<rparr>) \<rparr>;
               s3 = s2\<lparr> borrowerToLoanIds := (borrowerToLoanIds s2)
                          (rq_borrower request := borrowerToLoanIds s2 (rq_borrower request) @ [loanId]) \<rparr>;
               s4 = s3\<lparr> lenderToLoanIds := (lenderToLoanIds s3)
                          (sender e := lenderToLoanIds s3 (sender e) @ [loanId]) \<rparr>
           in if \<not> callSucceeds e (rq_borrower request) (msgValue e)
              then Inl (TransferFailed BorrowerLeg)
              else Inr (s4, [Emit (LoanFunded loanId requestId (sender e) price),
                             Send (rq_borrower request) (msgValue e)]))))))"

text \<open>\<open>calculateAmountDueEth\<close>, lines 263 to 275.\<close>

definition calculateAmountDueEth :: "state \<Rightarrow> env \<Rightarrow> nat \<Rightarrow> error + uint256" where
  "calculateAmountDueEth s e loanId =
     (let loan = activeLoans s loanId in
      if isRepaid loan then Inl AlreadyRepaid
      else
        let elapsed = (if timestamp e > startTimestamp loan
                       then timestamp e - startTimestamp loan else 0) in
        bindE (checked_mul (loanAmount loan) (initialEthPrice loan)) (\<lambda>m.
        bindE (checked_div m SCALE) (\<lambda>principalUsd.
        bindE (checked_mul principalUsd (interestRate loan)) (\<lambda>pr.
        bindE (checked_mul pr elapsed) (\<lambda>pre.
        bindE (checked_div pre (YEAR * 100)) (\<lambda>interestUsd.
        bindE (checked_add principalUsd interestUsd) (\<lambda>totalUsd.
        bindE (getEthUsdPrice s e) (\<lambda>currentPrice.
        bindE (checked_mul totalUsd SCALE) (\<lambda>scaled.
        checked_div scaled currentPrice)))))))))"

text \<open>\<open>_applyOverduePenaltyEth\<close>, lines 295 to 303.\<close>

definition applyOverduePenaltyEth :: "state \<Rightarrow> env \<Rightarrow> nat \<Rightarrow> uint256 \<Rightarrow> error + uint256" where
  "applyOverduePenaltyEth s e loanId baseDueEth =
     (if overdueRepayPenaltyBp s = 0 then Inr baseDueEth
      else
        bindE (getEthUsdPrice s e) (\<lambda>currentPrice.
        bindE (checked_mul baseDueEth currentPrice) (\<lambda>m.
        bindE (checked_div m SCALE) (\<lambda>baseDueUsd.
        bindE (checked_mul baseDueUsd (overdueRepayPenaltyBp s)) (\<lambda>pm.
        bindE (checked_div pm 10000) (\<lambda>penaltyUsd.
        bindE (checked_add baseDueUsd penaltyUsd) (\<lambda>totalUsd.
        bindE (checked_mul totalUsd SCALE) (\<lambda>scaled.
        checked_div scaled currentPrice))))))))"

text \<open>
  The amount \<open>repayLoan\<close> asks for (its lines 189 to 194): the amount due, with the overdue
  penalty once the block time has passed the loan's end.
\<close>

definition repayDue :: "state \<Rightarrow> env \<Rightarrow> nat \<Rightarrow> error + uint256" where
  "repayDue s e loanId =
     bindE (calculateAmountDueEth s e loanId) (\<lambda>dueEth.
       if timestamp e > endTime (activeLoans s loanId)
       then applyOverduePenaltyEth s e loanId dueEth
       else Inr dueEth)"

text \<open>\<open>repayLoan\<close>, lines 178 to 214. The parameter \<open>_repayAmount\<close> is declared and never read.\<close>

definition repayLoan :: "state \<Rightarrow> env \<Rightarrow> nat \<Rightarrow> uint256 \<Rightarrow> outcome" where
  "repayLoan s0 e loanId repayAmount =
     nonReentrant s0 (\<lambda>s. whenNotPaused s
      (let loan = activeLoans s loanId in
       if sender e \<noteq> borrower loan then Inl NotBorrower
       else if isRepaid loan then Inl AlreadyRepaid
       else if \<not> (msgValue e > 0) then Inl InvalidRepayAmount
       else
         bindE (repayDue s e loanId) (\<lambda>dueEth.
           if \<not> (msgValue e \<ge> dueEth) then Inl InsufficientPayment
           else
             let s1 = s\<lparr>activeLoans := (activeLoans s)(loanId := loan\<lparr>isRepaid := True\<rparr>)\<rparr> in
             if \<not> callSucceeds e (lender loan) dueEth then Inl (TransferFailed LenderLeg)
             else if \<not> callSucceeds e (borrower loan) (stake loan)
               then Inl (TransferFailed CollateralReturnLeg)
             else
               bindE (checked_sub (msgValue e) dueEth) (\<lambda>excess.
                 if excess > 0 \<and> \<not> callSucceeds e (borrower loan) excess
                 then Inl (TransferFailed RefundLeg)
                 else Inr (s1,
                   [Send (lender loan) dueEth, Send (borrower loan) (stake loan)]
                   @ (if excess > 0 then [Send (borrower loan) excess] else [])
                   @ [Emit (LoanRepaid loanId (borrower loan) (lender loan) dueEth)])))))"

text \<open>\<open>liquidateExpiredLoan\<close>, lines 242 to 260.\<close>

definition liquidateExpiredLoan :: "state \<Rightarrow> env \<Rightarrow> nat \<Rightarrow> outcome" where
  "liquidateExpiredLoan s0 e loanId =
     nonReentrant s0 (\<lambda>s.
       let loan = activeLoans s loanId in
       if isRepaid loan then Inl AlreadyRepaid
       else if \<not> (timestamp e > endTime loan) then Inl NotExpired
       else
         let s1 = s\<lparr>activeLoans := (activeLoans s)(loanId := loan\<lparr>isRepaid := True\<rparr>)\<rparr> in
         bindE (checked_mul (stake loan) (liquidationBonusBp s1)) (\<lambda>m.
         bindE (checked_div m 10000) (\<lambda>bonus.
         bindE (checked_sub (stake loan) bonus) (\<lambda>toLender.
           if \<not> callSucceeds e (sender e) bonus then Inl (TransferFailed BonusLeg)
           else if \<not> callSucceeds e (lender loan) toLender then Inl (TransferFailed CollateralLeg)
           else Inr (s1, [Send (sender e) bonus, Send (lender loan) toLender,
                          Emit (LoanLiquidated loanId (lender loan) (stake loan))])))))"

section \<open>Owner controls\<close>

text \<open>Lines 306 to 353.\<close>

definition transferOwnership :: "state \<Rightarrow> env \<Rightarrow> address \<Rightarrow> outcome" where
  "transferOwnership s e newOwner =
     onlyOwner s e
      (if newOwner = 0 then Inl ZeroAddress
       else Inr (s\<lparr>owner := newOwner\<rparr>, [Emit (OwnerUpdated (owner s) newOwner)]))"

definition pause :: "state \<Rightarrow> env \<Rightarrow> outcome" where
  "pause s e = onlyOwner s e (Inr (s\<lparr>paused := True\<rparr>, [Emit (PausedBy (sender e))]))"

definition unpause :: "state \<Rightarrow> env \<Rightarrow> outcome" where
  "unpause s e = onlyOwner s e (Inr (s\<lparr>paused := False\<rparr>, [Emit (UnpausedBy (sender e))]))"

definition updateParams :: "state \<Rightarrow> env \<Rightarrow> uint256 \<Rightarrow> uint256 \<Rightarrow> uint256 \<Rightarrow> outcome" where
  "updateParams s e penaltyBp bonusBp staleness =
     onlyOwner s e
      (if \<not> (bonusBp \<le> 5000) then Inl BonusTooHigh
       else if \<not> (penaltyBp \<le> 5000) then Inl PenaltyTooHigh
       else Inr (s\<lparr> overdueRepayPenaltyBp := penaltyBp,
                    liquidationBonusBp := bonusBp,
                    maxPriceStalenessSeconds := staleness \<rparr>,
                 [Emit (ParamsUpdated penaltyBp bonusBp staleness)]))"

definition updateOracle :: "state \<Rightarrow> env \<Rightarrow> address \<Rightarrow> outcome" where
  "updateOracle s e newFeed =
     onlyOwner s e (Inr (s\<lparr>ethUsdFeed := newFeed\<rparr>, [Emit (OracleUpdated newFeed)]))"

definition setDemoFixedEthUsdPrice :: "state \<Rightarrow> env \<Rightarrow> uint256 \<Rightarrow> outcome" where
  "setDemoFixedEthUsdPrice s e price =
     onlyOwner s e
      (if \<not> (price > 0) then Inl PriceZero
       else Inr (s\<lparr>demoFixedEthUsdPrice := price\<rparr>, []))"

definition updateRealEstateOracle :: "state \<Rightarrow> env \<Rightarrow> address \<Rightarrow> outcome" where
  "updateRealEstateOracle s e newOracle =
     onlyOwner s e
      (if newOracle = 0 then Inl ZeroAddress
       else Inr (s\<lparr>realEstateOracle := newOracle\<rparr>, [Emit (RealEstateOracleUpdated newOracle)]))"

text \<open>The state the constructor leaves, deployed by \<open>deployer\<close> with the feed \<open>feed\<close>.\<close>

definition constructor :: "address \<Rightarrow> address \<Rightarrow> state" where
  "constructor deployer feed =
     \<lparr> reentrancyStatus = NOT_ENTERED,
       ethUsdFeed = feed,
       demoFixedEthUsdPrice = 2000 * 10 ^ 18,
       realEstateOracle = 0,
       owner = deployer,
       paused = False,
       overdueRepayPenaltyBp = 300,
       liquidationBonusBp = 300,
       maxPriceStalenessSeconds = 3600,
       loanRequests = (\<lambda>_. zeroRequest),
       activeLoans = (\<lambda>_. zeroLoan),
       totalRequests = 0,
       totalLoans = 0,
       borrowerToLoanIds = (\<lambda>_. []),
       lenderToLoanIds = (\<lambda>_. []) \<rparr>"

section \<open>Transactions\<close>

text \<open>
  Every state-changing entry point of the contract, as one transaction type. A transaction
  that reverts leaves the state unchanged; one that succeeds commits the new state.
\<close>

datatype call =
    CreateLoanRequest uint256 uint256 uint256 bytes32 string bytes32 string uint256
  | FundLoanRequest nat
  | RepayLoan nat uint256
  | LiquidateExpiredLoan nat
  | TransferOwnership address
  | Pause
  | Unpause
  | UpdateParams uint256 uint256 uint256
  | UpdateOracle address
  | SetDemoFixedEthUsdPrice uint256
  | UpdateRealEstateOracle address

fun execute :: "state \<Rightarrow> env \<Rightarrow> call \<Rightarrow> outcome" where
  "execute s e (CreateLoanRequest a d r mc ec pc ac u) = createLoanRequest s e a d r mc ec pc ac u"
| "execute s e (FundLoanRequest rid) = fundLoanRequest s e rid"
| "execute s e (RepayLoan lid amt) = repayLoan s e lid amt"
| "execute s e (LiquidateExpiredLoan lid) = liquidateExpiredLoan s e lid"
| "execute s e (TransferOwnership a) = transferOwnership s e a"
| "execute s e Pause = pause s e"
| "execute s e Unpause = unpause s e"
| "execute s e (UpdateParams p b m) = updateParams s e p b m"
| "execute s e (UpdateOracle a) = updateOracle s e a"
| "execute s e (SetDemoFixedEthUsdPrice p) = setDemoFixedEthUsdPrice s e p"
| "execute s e (UpdateRealEstateOracle a) = updateRealEstateOracle s e a"

definition commit :: "state \<Rightarrow> outcome \<Rightarrow> state" where
  "commit s r = (case r of Inl _ \<Rightarrow> s | Inr (s', _) \<Rightarrow> s')"

definition step :: "state \<Rightarrow> env \<times> call \<Rightarrow> state" where
  "step s tx = commit s (execute s (fst tx) (snd tx))"

definition run :: "state \<Rightarrow> (env \<times> call) list \<Rightarrow> state" where
  "run s txs = foldl step s txs"

definition succeeds :: "error + 'a \<Rightarrow> bool" where
  "succeeds r = (case r of Inl _ \<Rightarrow> False | Inr _ \<Rightarrow> True)"


section \<open>Reachable ledgers\<close>

text \<open>
  The ledgers the contract can be in between two transactions: the one its constructor
  leaves, and every ledger a transaction (committed or reverted) leads to from one of them.
\<close>

inductive reachable :: "state \<Rightarrow> bool" where
  deployed: "reachable (constructor deployer feed)"
| transacted: "reachable s \<Longrightarrow> reachable (step s tx)"

text \<open>
  What holds of every reachable ledger: the reentrancy guard is free, the bonus and penalty
  rates are at most 5000 basis points and the fixed price is positive.
\<close>

definition ledgerInvariant :: "state \<Rightarrow> bool" where
  "ledgerInvariant s =
     (reentrancyStatus s = NOT_ENTERED \<and> liquidationBonusBp s \<le> 5000
      \<and> overdueRepayPenaltyBp s \<le> 5000 \<and> 0 < demoFixedEthUsdPrice s)"

text \<open>
  A loan id that no funding has allocated holds the zero record, or the zero record marked
  repaid once a settlement has been run on it.
\<close>

definition unallocatedLoansZero :: "state \<Rightarrow> bool" where
  "unallocatedLoansZero s =
     (\<forall>i. totalLoans s \<le> i \<longrightarrow>
        activeLoans s i = zeroLoan \<or> activeLoans s i = zeroLoan\<lparr>isRepaid := True\<rparr>)"

section \<open>The specification's formulas\<close>

text \<open>
  The amount due as the specification writes it, over unbounded naturals with truncating
  division: \<open>principal_value = loanAmount * initialPrice / SCALE\<close>,
  \<open>interest_value = principal_value * rate * elapsed / (365 days * 100)\<close>,
  \<open>due = (principal_value + interest_value) * SCALE / currentPrice\<close>.
\<close>

definition specAmountDue :: "nat \<Rightarrow> nat \<Rightarrow> nat \<Rightarrow> nat \<Rightarrow> nat \<Rightarrow> nat" where
  "specAmountDue amount rate initialPrice elapsed currentPrice =
     ((amount * initialPrice div 10 ^ 18)
       + ((amount * initialPrice div 10 ^ 18) * rate * elapsed div (365 * 86400 * 100)))
      * 10 ^ 18 div currentPrice"

text \<open>\<open>elapsed = max(0, now - start)\<close>.\<close>

definition elapsedSince :: "nat \<Rightarrow> nat \<Rightarrow> nat" where
  "elapsedSince now start = (if now > start then now - start else 0)"

text \<open>
  The reference value (principal plus interest) of a loan after \<open>elapsed\<close> seconds, and the
  condition that computing it stays inside the unsigned 256-bit range, so that none of the
  contract's checked operations panics on the way to the price read.
\<close>

definition specTotalValue :: "nat \<Rightarrow> nat \<Rightarrow> nat \<Rightarrow> nat \<Rightarrow> nat" where
  "specTotalValue amount rate initialPrice elapsed =
     (amount * initialPrice div 10 ^ 18)
       + ((amount * initialPrice div 10 ^ 18) * rate * elapsed div (365 * 86400 * 100))"

definition valueInRange :: "nat \<Rightarrow> nat \<Rightarrow> nat \<Rightarrow> nat \<Rightarrow> bool" where
  "valueInRange amount rate initialPrice elapsed =
     (amount * initialPrice \<le> MAX_UINT256 \<and>
      (amount * initialPrice div 10 ^ 18) * rate \<le> MAX_UINT256 \<and>
      (amount * initialPrice div 10 ^ 18) * rate * elapsed \<le> MAX_UINT256 \<and>
      specTotalValue amount rate initialPrice elapsed \<le> MAX_UINT256)"

definition dueInRange :: "nat \<Rightarrow> nat \<Rightarrow> nat \<Rightarrow> nat \<Rightarrow> bool" where
  "dueInRange amount rate initialPrice elapsed =
     (valueInRange amount rate initialPrice elapsed \<and>
      specTotalValue amount rate initialPrice elapsed * 10 ^ 18 \<le> MAX_UINT256)"

text \<open>
  The overdue penalty as the specification writes it: the base amount converted to reference
  value at the current price, increased by \<open>penaltyBp / 10000\<close> of that value, converted back
  at the same price.
\<close>

definition specPenaltyDue :: "nat \<Rightarrow> nat \<Rightarrow> nat \<Rightarrow> nat" where
  "specPenaltyDue baseDue currentPrice penaltyBp =
     ((baseDue * currentPrice div 10 ^ 18)
       + ((baseDue * currentPrice div 10 ^ 18) * penaltyBp div 10000))
      * 10 ^ 18 div currentPrice"

definition penaltyInRange :: "nat \<Rightarrow> nat \<Rightarrow> nat \<Rightarrow> bool" where
  "penaltyInRange baseDue currentPrice penaltyBp =
     (baseDue * currentPrice \<le> MAX_UINT256 \<and>
      (baseDue * currentPrice div 10 ^ 18) * penaltyBp \<le> MAX_UINT256 \<and>
      ((baseDue * currentPrice div 10 ^ 18)
        + ((baseDue * currentPrice div 10 ^ 18) * penaltyBp div 10000)) * 10 ^ 18 \<le> MAX_UINT256)"

section \<open>Example ledgers\<close>

text \<open>
  An environment in which no feed answers and every transfer goes through, and one in which
  every feed answers \<open>ans\<close>, updated at \<open>upd\<close>.
\<close>

definition exampleEnv :: "address \<Rightarrow> uint256 \<Rightarrow> uint256 \<Rightarrow> env" where
  "exampleEnv who val now = \<lparr> sender = who, msgValue = val, timestamp = now,
     latestRoundData = (\<lambda>_. None), callSucceeds = (\<lambda>_ _. True) \<rparr>"

definition feedEnv :: "address \<Rightarrow> uint256 \<Rightarrow> uint256 \<Rightarrow> int \<Rightarrow> uint256 \<Rightarrow> env" where
  "feedEnv who val now ans upd = \<lparr> sender = who, msgValue = val, timestamp = now,
     latestRoundData = (\<lambda>_. Some \<lparr> roundId = 1, answer = ans, startedAt = upd, updatedAt = upd,
                                    answeredInRound = 1 \<rparr>),
     callSucceeds = (\<lambda>_ _. True) \<rparr>"

text \<open>
  The platform deployed by 9 with no feed. At time 900 borrower 1 requests 10 units for 400
  days at 5 percent with a stake of 20 units; at time 1000 lender 2 funds the request at the
  fixed price of 2000.
\<close>

definition exampleRequest :: LoanRequest where
  "exampleRequest = \<lparr> rq_borrower = 1, rq_loanAmount = 10 * 10 ^ 18, rq_duration = 400,
     rq_isActive = True, rq_stake = 20 * 10 ^ 18, rq_interestRate = 5, rq_metadataCommitment = 0,
     rq_encryptedCid = [], rq_propertyIdCommitment = 0, rq_appraisalEncryptedCid = [],
     rq_propertyUnits = 0 \<rparr>"

definition exampleLoan :: ActiveLoan where
  "exampleLoan = \<lparr> borrower = 1, lender = 2, loanAmount = 10 * 10 ^ 18, stake = 20 * 10 ^ 18,
     startTimestamp = 1000, endTime = 1000 + 400 * 86400, interestRate = 5,
     initialEthPrice = 2000 * 10 ^ 18, propertyUnits = 0, isRepaid = False \<rparr>"

definition requestedState :: state where
  "requestedState =
     (constructor 9 0)\<lparr> loanRequests := (\<lambda>_. zeroRequest)(0 := exampleRequest),
                         totalRequests := 1 \<rparr>"

definition exampleState :: state where
  "exampleState =
     requestedState\<lparr> loanRequests := (\<lambda>_. zeroRequest)(0 := exampleRequest\<lparr>rq_isActive := False\<rparr>),
                      activeLoans := (\<lambda>_. zeroLoan)(0 := exampleLoan),
                      totalLoans := 1,
                      borrowerToLoanIds := (\<lambda>_. [])(1 := [0]),
                      lenderToLoanIds := (\<lambda>_. [])(2 := [0]) \<rparr>"

text \<open>The same ledger once loan 0 is settled.\<close>

definition settledState :: state where
  "settledState =
     exampleState\<lparr> activeLoans := (activeLoans exampleState)(0 := exampleLoan\<lparr>isRepaid := True\<rparr>) \<rparr>"

text \<open>
  The example ledger after borrower 4 has requested 1 unit for 30 days at 3 percent (request
  1, pending); then with a price feed at address 7; or paused.
\<close>

definition pendingRequest :: LoanRequest where
  "pendingRequest = \<lparr> rq_borrower = 4, rq_loanAmount = 10 ^ 18, rq_duration = 30, rq_isActive = True,
     rq_stake = 2 * 10 ^ 18, rq_interestRate = 3, rq_metadataCommitment = 0, rq_encryptedCid = [],
     rq_propertyIdCommitment = 0, rq_appraisalEncryptedCid = [], rq_propertyUnits = 0 \<rparr>"

definition pendingState :: state where
  "pendingState =
     exampleState\<lparr> loanRequests := (loanRequests exampleState)(1 := pendingRequest),
                    totalRequests := 2 \<rparr>"

definition feedState :: state where
  "feedState = pendingState\<lparr> ethUsdFeed := 7 \<rparr>"

definition pausedState :: state where
  "pausedState = pendingState\<lparr> paused := True \<rparr>"

text \<open>
  The example ledger after account 3 has, at time 2000, liquidated loan id 5, an id that no
  funding has allocated.
\<close>

definition phantomState :: state where
  "phantomState =
     exampleState\<lparr> activeLoans := (activeLoans exampleState)(5 := zeroLoan\<lparr>isRepaid := True\<rparr>) \<rparr>"

text \<open>A dust loan: the same history with a principal of 1000 smallest units.\<close>

definition dustRequest :: LoanRequest where
  "dustRequest = exampleRequest\<lparr> rq_loanAmount := 1000, rq_stake := 2000 \<rparr>"

definition dustLoan :: ActiveLoan where
  "dustLoan = exampleLoan\<lparr> loanAmount := 1000, stake := 2000 \<rparr>"

definition dustRequestedState :: state where
  "dustRequestedState =
     (constructor 9 0)\<lparr> loanRequests := (\<lambda>_. zeroRequest)(0 := dustRequest),
                         totalRequests := 1 \<rparr>"

definition dustState :: state where
  "dustState =
     dustRequestedState\<lparr> loanRequests := (\<lambda>_. zeroRequest)(0 := dustRequest\<lparr>rq_isActive := False\<rparr>),
                          activeLoans := (\<lambda>_. zeroLoan)(0 := dustLoan),
                          totalLoans := 1,
                          borrowerToLoanIds := (\<lambda>_. [])(1 := [0]),
                          lenderToLoanIds := (\<lambda>_. [])(2 := [0]) \<rparr>"

text \<open>Applying a change of state to the state a successful call commits.\<close>

definition mapState :: "(state \<Rightarrow> state) \<Rightarrow> outcome \<Rightarrow> outcome" where
  "mapState f r = (case r of Inl err \<Rightarrow> Inl err | Inr (s, fx) \<Rightarrow> Inr (f s, fx))"


section \<open>Basic facts about the checked operations\<close>

lemma bindE_Inr [simp]: "bindE (Inr x) k = k x"
  by (simp add: bindE_def)

lemma bindE_Inl [simp]: "bindE (Inl x) k = Inl x"
  by (simp add: bindE_def)

lemma checked_mul_ok: "a * b \<le> MAX_UINT256 \<Longrightarrow> checked_mul a b = Inr (a * b)"
  by (simp add: checked_mul_def)

lemma checked_add_ok: "a + b \<le> MAX_UINT256 \<Longrightarrow> checked_add a b = Inr (a + b)"
  by (simp add: checked_add_def)

lemma checked_sub_ok: "b \<le> a \<Longrightarrow> checked_sub a b = Inr (a - b)"
  by (simp add: checked_sub_def)

lemma checked_div_ok: "0 < b \<Longrightarrow> checked_div a b = Inr (a div b)"
  by (simp add: checked_div_def)

lemma bindE_eq_Inr: "bindE m k = Inr d \<longleftrightarrow> (\<exists>x. m = Inr x \<and> k x = Inr d)"
  by (cases m) simp_all

lemma checked_mul_eq_Inr: "checked_mul a b = Inr c \<longleftrightarrow> a * b \<le> MAX_UINT256 \<and> c = a * b"
  by (auto simp add: checked_mul_def)

lemma checked_add_eq_Inr: "checked_add a b = Inr c \<longleftrightarrow> a + b \<le> MAX_UINT256 \<and> c = a + b"
  by (auto simp add: checked_add_def)

lemma checked_div_eq_Inr: "checked_div a b = Inr c \<longleftrightarrow> 0 < b \<and> c = a div b"
  by (auto simp add: checked_div_def)

lemma le_of_scaled: "(x::nat) * 10 ^ 18 \<le> m \<Longrightarrow> x \<le> m"
proof -
  assume a: "x * 10 ^ 18 \<le> m"
  have "x * 1 \<le> x * 10 ^ 18" by (rule mult_le_mono2) simp
  with a show ?thesis by simp
qed

lemma bonus_le_stake: "bp \<le> 10000 \<Longrightarrow> (st::nat) * bp div 10000 \<le> st"
proof -
  assume "bp \<le> 10000"
  then have "st * bp \<le> st * 10000" by simp
  then have "st * bp div 10000 \<le> st * 10000 div 10000" by (rule div_le_mono)
  then show ?thesis by simp
qed

section \<open>Facts about outcomes, gates and the price read\<close>

lemma succeeds_simps [simp]: "succeeds (Inr x) = True" "succeeds (Inl y) = False"
  by (simp_all add: succeeds_def)

lemma commit_simps [simp]: "commit s (Inl x) = s" "commit s (Inr (s', fx)) = s'"
  by (simp_all add: commit_def)

lemma succeeds_iff: "succeeds m \<longleftrightarrow> (\<exists>x. m = Inr x)"
  by (cases m) simp_all

lemma succeeds_bindE: "succeeds (bindE m k) \<longleftrightarrow> (\<exists>x. m = Inr x \<and> succeeds (k x))"
  by (cases m) simp_all

lemma succeeds_nonReentrant:
  "succeeds (nonReentrant s body) \<longleftrightarrow>
     reentrancyStatus s \<noteq> ENTERED \<and> succeeds (body (s\<lparr>reentrancyStatus := ENTERED\<rparr>))"
  by (simp add: nonReentrant_def succeeds_def split: sum.splits prod.splits)

lemma succeeds_whenNotPaused: "succeeds (whenNotPaused s body) \<longleftrightarrow> \<not> paused s \<and> succeeds body"
  by (simp add: whenNotPaused_def)

lemma commit_fails: "\<not> succeeds r \<Longrightarrow> commit s r = s"
  by (cases r) simp_all

lemma getEthUsdPrice_frame:
  "ethUsdFeed s' = ethUsdFeed s \<Longrightarrow> demoFixedEthUsdPrice s' = demoFixedEthUsdPrice s \<Longrightarrow>
   maxPriceStalenessSeconds s' = maxPriceStalenessSeconds s \<Longrightarrow>
   getEthUsdPrice s' e = getEthUsdPrice s e"
  by (simp add: getEthUsdPrice_def split: option.splits)

lemma calculateAmountDueEth_frame:
  "ethUsdFeed s' = ethUsdFeed s \<Longrightarrow> demoFixedEthUsdPrice s' = demoFixedEthUsdPrice s \<Longrightarrow>
   maxPriceStalenessSeconds s' = maxPriceStalenessSeconds s \<Longrightarrow> activeLoans s' = activeLoans s \<Longrightarrow>
   calculateAmountDueEth s' e i = calculateAmountDueEth s e i"
  using getEthUsdPrice_frame [of s' s e] by (simp add: calculateAmountDueEth_def Let_def)

lemma applyOverduePenaltyEth_frame:
  "ethUsdFeed s' = ethUsdFeed s \<Longrightarrow> demoFixedEthUsdPrice s' = demoFixedEthUsdPrice s \<Longrightarrow>
   maxPriceStalenessSeconds s' = maxPriceStalenessSeconds s \<Longrightarrow>
   overdueRepayPenaltyBp s' = overdueRepayPenaltyBp s \<Longrightarrow>
   applyOverduePenaltyEth s' e i b = applyOverduePenaltyEth s e i b"
  using getEthUsdPrice_frame [of s' s e] by (simp add: applyOverduePenaltyEth_def)

lemma repayDue_frame:
  "ethUsdFeed s' = ethUsdFeed s \<Longrightarrow> demoFixedEthUsdPrice s' = demoFixedEthUsdPrice s \<Longrightarrow>
   maxPriceStalenessSeconds s' = maxPriceStalenessSeconds s \<Longrightarrow> activeLoans s' = activeLoans s \<Longrightarrow>
   overdueRepayPenaltyBp s' = overdueRepayPenaltyBp s \<Longrightarrow>
   repayDue s' e i = repayDue s e i"
  using calculateAmountDueEth_frame [of s' s e i] applyOverduePenaltyEth_frame [of s' s e i]
  by (simp add: repayDue_def cong: if_cong)

lemma calc_price_fails:
  assumes "getEthUsdPrice s e = Inl err"
  shows "\<not> succeeds (calculateAmountDueEth s e i)"
  using assms
  by (simp add: calculateAmountDueEth_def Let_def succeeds_bindE)

lemma calc_price_error:
  assumes "getEthUsdPrice s e = Inl err" and "\<not> isRepaid (activeLoans s i)"
    and "valueInRange (loanAmount (activeLoans s i)) (interestRate (activeLoans s i))
      (initialEthPrice (activeLoans s i))
      (elapsedSince (timestamp e) (startTimestamp (activeLoans s i)))"
  shows "calculateAmountDueEth s e i = Inl err"
  using assms
  by (simp add: calculateAmountDueEth_def valueInRange_def specTotalValue_def
      Let_def elapsedSince_def checked_mul_ok checked_add_ok checked_div_ok SCALE_def YEAR_def)

lemma repayDue_fails:
  "\<not> succeeds (calculateAmountDueEth s e i) \<Longrightarrow> \<not> succeeds (repayDue s e i)"
  by (cases "calculateAmountDueEth s e i") (simp_all add: repayDue_def)

lemma repay_price_fails:
  assumes "getEthUsdPrice s e = Inl err"
  shows "\<not> succeeds (repayLoan s e i a)"
proof -
  have "\<not> succeeds (repayDue s e i)"
    by (rule repayDue_fails, rule calc_price_fails, rule assms)
  then have "\<not> succeeds (repayDue (s\<lparr>reentrancyStatus := ENTERED\<rparr>) e i)"
    by (simp add: repayDue_frame [of "s\<lparr>reentrancyStatus := ENTERED\<rparr>" s])
  then show ?thesis
    by (simp add: repayLoan_def succeeds_nonReentrant succeeds_whenNotPaused Let_def
        succeeds_bindE succeeds_iff [of "repayDue _ _ _"])
qed

lemma repay_price_error:
  assumes "getEthUsdPrice s e = Inl err" and "reentrancyStatus s \<noteq> ENTERED" and "\<not> paused s"
    and "sender e = borrower (activeLoans s i)" and "\<not> isRepaid (activeLoans s i)"
    and "0 < msgValue e"
    and "valueInRange (loanAmount (activeLoans s i)) (interestRate (activeLoans s i))
      (initialEthPrice (activeLoans s i))
      (elapsedSince (timestamp e) (startTimestamp (activeLoans s i)))"
  shows "repayLoan s e i a = Inl err"
proof -
  have "calculateAmountDueEth s e i = Inl err"
    using assms by (simp add: calc_price_error)
  then have "repayDue s e i = Inl err"
    by (simp add: repayDue_def)
  then have "repayDue (s\<lparr>reentrancyStatus := ENTERED\<rparr>) e i = Inl err"
    by (simp add: repayDue_frame [of "s\<lparr>reentrancyStatus := ENTERED\<rparr>" s])
  then show ?thesis
    using assms by (simp add: repayLoan_def nonReentrant_def whenNotPaused_def Let_def)
qed

lemma fund_price_fails:
  assumes "getEthUsdPrice s e = Inl err"
  shows "\<not> succeeds (fundLoanRequest s e r)"
proof -
  have p: "getEthUsdPrice (s\<lparr>reentrancyStatus := ENTERED, totalLoans := n\<rparr>) e = Inl err" for n
    using assms by (simp add: getEthUsdPrice_frame [of "s\<lparr>reentrancyStatus := ENTERED, totalLoans := n\<rparr>" s])
  show ?thesis
    by (simp add: fundLoanRequest_def succeeds_nonReentrant succeeds_whenNotPaused Let_def
        getNextLoanId_def p succeeds_bindE)
qed

lemma fund_price_error:
  assumes "getEthUsdPrice s e = Inl err" and "reentrancyStatus s \<noteq> ENTERED" and "\<not> paused s"
    and "rq_isActive (loanRequests s r)" and "msgValue e = rq_loanAmount (loanRequests s r)"
    and "timestamp e + rq_duration (loanRequests s r) * 86400 \<le> MAX_UINT256"
  shows "fundLoanRequest s e r = Inl err"
proof -
  have p: "getEthUsdPrice (s\<lparr>reentrancyStatus := ENTERED, totalLoans := n\<rparr>) e = Inl err" for n
    using assms by (simp add: getEthUsdPrice_frame [of "s\<lparr>reentrancyStatus := ENTERED, totalLoans := n\<rparr>" s])
  have "rq_duration (loanRequests s r) * 86400 \<le> MAX_UINT256"
    using assms(6) by simp
  then show ?thesis
    using assms
    by (simp add: fundLoanRequest_def nonReentrant_def whenNotPaused_def Let_def
        getNextLoanId_def p checked_mul_ok checked_add_ok DAY_def)
qed

lemma feed_failure:
  assumes "ethUsdFeed s \<noteq> 0" and "latestRoundData e (ethUsdFeed s) = Some rd"
    and "answer rd \<le> 0 \<or> maxPriceStalenessSeconds s < timestamp e - updatedAt rd"
  shows "getEthUsdPrice s e = Inl (if answer rd \<le> 0 then InvalidPrice else StalePrice)"
  using assms by (auto simp add: getEthUsdPrice_def checked_sub_def)

lemma applyOverduePenaltyEth_formula:
  assumes price: "getEthUsdPrice s e = Inr p" and pos: "0 < p"
    and range: "overdueRepayPenaltyBp s \<noteq> 0 \<longrightarrow> penaltyInRange base p (overdueRepayPenaltyBp s)"
  shows "applyOverduePenaltyEth s e i base =
           Inr (if overdueRepayPenaltyBp s = 0 then base
                else specPenaltyDue base p (overdueRepayPenaltyBp s))"
proof (cases "overdueRepayPenaltyBp s = 0")
  case True
  then show ?thesis by (simp add: applyOverduePenaltyEth_def)
next
  case False
  define usd where "usd = base * p div 10 ^ 18"
  define pen where "pen = usd * overdueRepayPenaltyBp s div 10000"
  from False range have r: "penaltyInRange base p (overdueRepayPenaltyBp s)" by simp
  then have m1: "checked_mul base p = Inr (base * p)"
    by (simp add: penaltyInRange_def checked_mul_ok)
  have d1: "checked_div (base * p) SCALE = Inr usd"
    by (simp add: checked_div_ok SCALE_def usd_def)
  from r have m2: "checked_mul usd (overdueRepayPenaltyBp s) = Inr (usd * overdueRepayPenaltyBp s)"
    by (simp add: penaltyInRange_def checked_mul_ok usd_def)
  have d2: "checked_div (usd * overdueRepayPenaltyBp s) 10000 = Inr pen"
    by (simp add: checked_div_ok pen_def)
  from r have s3: "(usd + pen) * 10 ^ 18 \<le> MAX_UINT256"
    by (simp add: penaltyInRange_def usd_def pen_def)
  then have "usd + pen \<le> MAX_UINT256" by (rule le_of_scaled)
  then have a3: "checked_add usd pen = Inr (usd + pen)" by (rule checked_add_ok)
  from s3 have m3: "checked_mul (usd + pen) SCALE = Inr ((usd + pen) * 10 ^ 18)"
    by (simp add: checked_mul_ok SCALE_def)
  from pos have d3: "checked_div ((usd + pen) * 10 ^ 18) p = Inr ((usd + pen) * 10 ^ 18 div p)"
    by (rule checked_div_ok)
  have "applyOverduePenaltyEth s e i base = Inr ((usd + pen) * 10 ^ 18 div p)"
    unfolding applyOverduePenaltyEth_def
    by (simp only: False if_False price bindE_Inr m1 d1 m2 d2 a3 m3 d3)
  then show ?thesis
    using False by (simp add: specPenaltyDue_def usd_def pen_def)
qed

lemma calculateAmountDueEth_Inr:
  assumes "calculateAmountDueEth s e i = Inr d" and "getEthUsdPrice s e = Inr p"
  shows "\<not> isRepaid (activeLoans s i) \<and> 0 < p
    \<and> dueInRange (loanAmount (activeLoans s i)) (interestRate (activeLoans s i))
         (initialEthPrice (activeLoans s i))
         (elapsedSince (timestamp e) (startTimestamp (activeLoans s i)))
    \<and> d = specAmountDue (loanAmount (activeLoans s i)) (interestRate (activeLoans s i))
         (initialEthPrice (activeLoans s i))
         (elapsedSince (timestamp e) (startTimestamp (activeLoans s i))) p"
  using assms
  by (auto simp add: calculateAmountDueEth_def Let_def bindE_eq_Inr checked_mul_eq_Inr
      checked_add_eq_Inr checked_div_eq_Inr dueInRange_def valueInRange_def specTotalValue_def
      specAmountDue_def elapsedSince_def SCALE_def YEAR_def split: if_splits)

lemma specTotalValue_mono:
  "t1 \<le> t2 \<Longrightarrow> specTotalValue a r p0 t1 \<le> specTotalValue a r p0 t2"
  unfolding specTotalValue_def
  by (intro add_left_mono div_le_mono mult_le_mono2)

lemma dueInRange_earlier:
  assumes "t1 \<le> t2" and "dueInRange a r p0 t2"
  shows "dueInRange a r p0 t1"
proof -
  have v: "specTotalValue a r p0 t1 \<le> specTotalValue a r p0 t2"
    using assms(1) by (rule specTotalValue_mono)
  have m: "(a * p0 div 10 ^ 18) * r * t1 \<le> (a * p0 div 10 ^ 18) * r * t2"
    using assms(1) by (rule mult_le_mono2)
  have s: "specTotalValue a r p0 t1 * 10 ^ 18 \<le> specTotalValue a r p0 t2 * 10 ^ 18"
    using v by (rule mult_le_mono1)
  show ?thesis
    using assms(2) v m s unfolding dueInRange_def valueInRange_def
    by (meson le_trans)
qed

lemma specAmountDue_total:
  "specAmountDue a r p0 t p = specTotalValue a r p0 t * 10 ^ 18 div p"
  by (simp only: specAmountDue_def specTotalValue_def)

lemma specAmountDue_mono:
  "t1 \<le> t2 \<Longrightarrow> specAmountDue a r p0 t1 p \<le> specAmountDue a r p0 t2 p"
  unfolding specAmountDue_total
  by (intro div_le_mono mult_le_mono1 specTotalValue_mono)

lemma specAmountDue_strict:
  assumes "0 < p" and "t1 \<le> t2"
    and "p \<le> (specTotalValue a r p0 t2 - specTotalValue a r p0 t1) * 10 ^ 18"
  shows "specAmountDue a r p0 t1 p < specAmountDue a r p0 t2 p"
proof -
  define v1 where "v1 = specTotalValue a r p0 t1 * 10 ^ 18"
  define v2 where "v2 = specTotalValue a r p0 t2 * 10 ^ 18"
  have "specTotalValue a r p0 t1 \<le> specTotalValue a r p0 t2"
    using assms(2) by (rule specTotalValue_mono)
  then have "v1 + p \<le> v2"
    using assms(3) unfolding v1_def v2_def by (simp add: diff_mult_distrib)
  then have "(v1 + p) div p \<le> v2 div p" by (rule div_le_mono)
  moreover have "(v1 + p) div p = v1 div p + 1"
    using assms(1) div_add_self2 [of p v1] by simp
  ultimately have "v1 div p < v2 div p" by simp
  then show ?thesis
    unfolding specAmountDue_total v1_def v2_def .
qed

lemma liquidate_ignores_pause:
  "liquidateExpiredLoan (s\<lparr>paused := True\<rparr>) e i =
     mapState (\<lambda>s'. s'\<lparr>paused := True\<rparr>) (liquidateExpiredLoan (s\<lparr>paused := False\<rparr>) e i)"
  by (simp add: liquidateExpiredLoan_def nonReentrant_def Let_def mapState_def bindE_def
      split: sum.splits)

section \<open>What every transaction preserves\<close>

lemma create_keeps_loans:
  "createLoanRequest s e a d r mc ec pc ac u = Inr (s', fx) \<Longrightarrow> activeLoans s' = activeLoans s"
  by (auto simp add: createLoanRequest_def whenNotPaused_def bindE_eq_Inr getNextRequestId_def
      Let_def split: if_splits)

lemma fund_keeps_isRepaid:
  "fundLoanRequest s e r = Inr (s', fx) \<Longrightarrow> isRepaid (activeLoans s' i) = isRepaid (activeLoans s i)"
  by (auto simp add: fundLoanRequest_def nonReentrant_def whenNotPaused_def bindE_eq_Inr
      getNextLoanId_def Let_def split: if_splits sum.splits)

lemma repay_keeps_isRepaid:
  "repayLoan s e j a = Inr (s', fx) \<Longrightarrow> isRepaid (activeLoans s i) \<Longrightarrow> isRepaid (activeLoans s' i)"
  by (auto simp add: repayLoan_def nonReentrant_def whenNotPaused_def bindE_eq_Inr
      Let_def split: if_splits sum.splits)

lemma liquidate_keeps_isRepaid:
  "liquidateExpiredLoan s e j = Inr (s', fx) \<Longrightarrow> isRepaid (activeLoans s i) \<Longrightarrow> isRepaid (activeLoans s' i)"
  by (auto simp add: liquidateExpiredLoan_def nonReentrant_def bindE_eq_Inr
      Let_def split: if_splits sum.splits)

lemma repay_sets_isRepaid:
  "repayLoan s e i a = Inr (s', fx) \<Longrightarrow> isRepaid (activeLoans s' i)"
  by (auto simp add: repayLoan_def nonReentrant_def whenNotPaused_def bindE_eq_Inr
      Let_def split: if_splits sum.splits)

lemma liquidate_sets_isRepaid:
  "liquidateExpiredLoan s e i = Inr (s', fx) \<Longrightarrow> isRepaid (activeLoans s' i)"
  by (auto simp add: liquidateExpiredLoan_def nonReentrant_def bindE_eq_Inr
      Let_def split: if_splits sum.splits)

lemma owner_calls_keep_loans:
  "transferOwnership s e a = Inr (s', fx) \<Longrightarrow> activeLoans s' = activeLoans s"
  "pause s e = Inr (s', fx) \<Longrightarrow> activeLoans s' = activeLoans s"
  "unpause s e = Inr (s', fx) \<Longrightarrow> activeLoans s' = activeLoans s"
  "updateParams s e p b m = Inr (s', fx) \<Longrightarrow> activeLoans s' = activeLoans s"
  "updateOracle s e a = Inr (s', fx) \<Longrightarrow> activeLoans s' = activeLoans s"
  "setDemoFixedEthUsdPrice s e p = Inr (s', fx) \<Longrightarrow> activeLoans s' = activeLoans s"
  "updateRealEstateOracle s e a = Inr (s', fx) \<Longrightarrow> activeLoans s' = activeLoans s"
  by (auto simp add: transferOwnership_def pause_def unpause_def updateParams_def updateOracle_def
      setDemoFixedEthUsdPrice_def updateRealEstateOracle_def onlyOwner_def split: if_splits)

lemma execute_keeps_isRepaid:
  assumes "execute s e c = Inr (s', fx)" and "isRepaid (activeLoans s i)"
  shows "isRepaid (activeLoans s' i)"
proof (cases c)
  case (CreateLoanRequest a d r mc ec pc ac u)
  with assms show ?thesis by (simp add: create_keeps_loans [of s e a d r mc ec pc ac u s' fx])
next
  case (FundLoanRequest r)
  with assms show ?thesis by (simp add: fund_keeps_isRepaid [of s e r s' fx])
next
  case (RepayLoan j a)
  with assms show ?thesis by (simp add: repay_keeps_isRepaid [of s e j a s' fx])
next
  case (LiquidateExpiredLoan j)
  with assms show ?thesis by (simp add: liquidate_keeps_isRepaid [of s e j s' fx])
next
  case (TransferOwnership a)
  with assms show ?thesis by (simp add: owner_calls_keep_loans(1) [of s e a s' fx])
next
  case Pause
  with assms show ?thesis by (simp add: owner_calls_keep_loans(2) [of s e s' fx])
next
  case Unpause
  with assms show ?thesis by (simp add: owner_calls_keep_loans(3) [of s e s' fx])
next
  case (UpdateParams p b m)
  with assms show ?thesis by (simp add: owner_calls_keep_loans(4) [of s e p b m s' fx])
next
  case (UpdateOracle a)
  with assms show ?thesis by (simp add: owner_calls_keep_loans(5) [of s e a s' fx])
next
  case (SetDemoFixedEthUsdPrice p)
  with assms show ?thesis by (simp add: owner_calls_keep_loans(6) [of s e p s' fx])
next
  case (UpdateRealEstateOracle a)
  with assms show ?thesis by (simp add: owner_calls_keep_loans(7) [of s e a s' fx])
qed

lemma step_keeps_isRepaid:
  assumes "isRepaid (activeLoans s i)"
  shows "isRepaid (activeLoans (step s tx) i)"
proof (cases "execute s (fst tx) (snd tx)")
  case (Inl err)
  with assms show ?thesis by (simp add: step_def)
next
  case (Inr r)
  obtain s' fx where r: "r = (s', fx)" by (cases r)
  with Inr assms execute_keeps_isRepaid [of s "fst tx" "snd tx" s' fx i]
  show ?thesis by (simp add: step_def)
qed

lemma run_keeps_isRepaid:
  "isRepaid (activeLoans s i) \<Longrightarrow> isRepaid (activeLoans (run s txs) i)"
  unfolding run_def
  by (induction txs arbitrary: s) (simp_all add: step_keeps_isRepaid)

lemma repaid_repay_fails:
  "isRepaid (activeLoans s i) \<Longrightarrow> \<not> succeeds (repayLoan s e i a)"
  by (simp add: repayLoan_def succeeds_nonReentrant succeeds_whenNotPaused Let_def)

lemma repaid_liquidate_fails:
  "isRepaid (activeLoans s i) \<Longrightarrow> \<not> succeeds (liquidateExpiredLoan s e i)"
  by (simp add: liquidateExpiredLoan_def succeeds_nonReentrant Let_def)

lemma execute_keeps_invariant:
  assumes "execute s e c = Inr (s', fx)" and "ledgerInvariant s"
  shows "ledgerInvariant s'"
proof (cases c)
  case (CreateLoanRequest a d r mc ec pc ac u)
  with assms show ?thesis
    by (auto simp add: ledgerInvariant_def createLoanRequest_def whenNotPaused_def bindE_eq_Inr
        getNextRequestId_def Let_def split: if_splits)
next
  case (FundLoanRequest r)
  with assms show ?thesis
    by (auto simp add: ledgerInvariant_def fundLoanRequest_def nonReentrant_def whenNotPaused_def
        bindE_eq_Inr getNextLoanId_def Let_def split: if_splits sum.splits)
next
  case (RepayLoan j a)
  with assms show ?thesis
    by (auto simp add: ledgerInvariant_def repayLoan_def nonReentrant_def whenNotPaused_def
        bindE_eq_Inr Let_def split: if_splits sum.splits)
next
  case (LiquidateExpiredLoan j)
  with assms show ?thesis
    by (auto simp add: ledgerInvariant_def liquidateExpiredLoan_def nonReentrant_def bindE_eq_Inr
        Let_def split: if_splits sum.splits)
next
  case (TransferOwnership a)
  with assms show ?thesis
    by (auto simp add: ledgerInvariant_def transferOwnership_def onlyOwner_def split: if_splits)
next
  case Pause
  with assms show ?thesis
    by (auto simp add: ledgerInvariant_def pause_def onlyOwner_def split: if_splits)
next
  case Unpause
  with assms show ?thesis
    by (auto simp add: ledgerInvariant_def unpause_def onlyOwner_def split: if_splits)
next
  case (UpdateParams p b m)
  with assms show ?thesis
    by (auto simp add: ledgerInvariant_def updateParams_def onlyOwner_def split: if_splits)
next
  case (UpdateOracle a)
  with assms show ?thesis
    by (auto simp add: ledgerInvariant_def updateOracle_def onlyOwner_def split: if_splits)
next
  case (SetDemoFixedEthUsdPrice p)
  with assms show ?thesis
    by (auto simp add: ledgerInvariant_def setDemoFixedEthUsdPrice_def onlyOwner_def split: if_splits)
next
  case (UpdateRealEstateOracle a)
  with assms show ?thesis
    by (auto simp add: ledgerInvariant_def updateRealEstateOracle_def onlyOwner_def split: if_splits)
qed

lemma step_keeps_invariant:
  assumes "ledgerInvariant s"
  shows "ledgerInvariant (step s tx)"
proof (cases "execute s (fst tx) (snd tx)")
  case (Inl err)
  with assms show ?thesis by (simp add: step_def)
next
  case (Inr r)
  obtain s' fx where "r = (s', fx)" by (cases r)
  with Inr assms execute_keeps_invariant [of s "fst tx" "snd tx" s' fx]
  show ?thesis by (simp add: step_def)
qed

lemma reachable_invariant: "reachable s \<Longrightarrow> ledgerInvariant s"
proof (induction rule: reachable.induct)
  case (deployed deployer feed)
  show ?case by (simp add: ledgerInvariant_def constructor_def)
next
  case (transacted s tx)
  then show ?case by (simp add: step_keeps_invariant)
qed

lemma fund_shape:
  assumes "fundLoanRequest s e r = Inr (s', fx)"
  shows "totalLoans s' = Suc (totalLoans s)"
    and "i \<noteq> totalLoans s \<Longrightarrow> activeLoans s' i = activeLoans s i"
  using assms
  by (auto simp add: fundLoanRequest_def nonReentrant_def whenNotPaused_def
      bindE_eq_Inr getNextLoanId_def Let_def split: if_splits sum.splits)

lemma repay_shape:
  assumes "repayLoan s e j a = Inr (s', fx)"
  shows "totalLoans s' = totalLoans s" and "\<not> isRepaid (activeLoans s j)"
    and "activeLoans s' = (activeLoans s)(j := (activeLoans s j)\<lparr>isRepaid := True\<rparr>)"
  using assms
  by (auto simp add: repayLoan_def nonReentrant_def whenNotPaused_def
      bindE_eq_Inr Let_def split: if_splits sum.splits)

lemma liquidate_shape:
  assumes "liquidateExpiredLoan s e j = Inr (s', fx)"
  shows "totalLoans s' = totalLoans s" and "\<not> isRepaid (activeLoans s j)"
    and "activeLoans s' = (activeLoans s)(j := (activeLoans s j)\<lparr>isRepaid := True\<rparr>)"
  using assms
  by (auto simp add: liquidateExpiredLoan_def nonReentrant_def
      bindE_eq_Inr Let_def split: if_splits sum.splits)

lemma settle_keeps_unallocated:
  assumes "unallocatedLoansZero s" and "totalLoans s' = totalLoans s"
    and "\<not> isRepaid (activeLoans s j)"
    and "activeLoans s' = (activeLoans s)(j := (activeLoans s j)\<lparr>isRepaid := True\<rparr>)"
  shows "unallocatedLoansZero s'"
  unfolding unallocatedLoansZero_def
proof (intro allI impI)
  fix i
  assume "totalLoans s' \<le> i"
  then have z: "activeLoans s i = zeroLoan \<or> activeLoans s i = zeroLoan\<lparr>isRepaid := True\<rparr>"
    using assms(1,2) by (simp add: unallocatedLoansZero_def)
  show "activeLoans s' i = zeroLoan \<or> activeLoans s' i = zeroLoan\<lparr>isRepaid := True\<rparr>"
  proof (cases "i = j")
    case True
    with z assms(3) have "activeLoans s j = zeroLoan" by auto
    with True assms(4) show ?thesis by simp
  next
    case False
    with z assms(4) show ?thesis by simp
  qed
qed

lemma execute_keeps_unallocated:
  assumes "execute s e c = Inr (s', fx)" and "unallocatedLoansZero s"
  shows "unallocatedLoansZero s'"
proof (cases c)
  case (CreateLoanRequest a d r mc ec pc ac u)
  with assms show ?thesis
    by (auto simp add: unallocatedLoansZero_def createLoanRequest_def whenNotPaused_def bindE_eq_Inr
        getNextRequestId_def Let_def split: if_splits)
next
  case (FundLoanRequest r)
  with assms have f: "fundLoanRequest s e r = Inr (s', fx)" by simp
  show ?thesis
    unfolding unallocatedLoansZero_def
  proof (intro allI impI)
    fix i
    assume "totalLoans s' \<le> i"
    then have "totalLoans s \<le> i" and "i \<noteq> totalLoans s"
      using fund_shape(1) [OF f] by simp_all
    then show "activeLoans s' i = zeroLoan \<or> activeLoans s' i = zeroLoan\<lparr>isRepaid := True\<rparr>"
      using assms(2) fund_shape(2) [OF f, of i] by (simp add: unallocatedLoansZero_def)
  qed
next
  case (RepayLoan j a)
  with assms have f: "repayLoan s e j a = Inr (s', fx)" by simp
  show ?thesis
    by (rule settle_keeps_unallocated [OF assms(2) repay_shape [OF f]])
next
  case (LiquidateExpiredLoan j)
  with assms have f: "liquidateExpiredLoan s e j = Inr (s', fx)" by simp
  show ?thesis
    by (rule settle_keeps_unallocated [OF assms(2) liquidate_shape [OF f]])
next
  case (TransferOwnership a)
  with assms show ?thesis
    by (auto simp add: unallocatedLoansZero_def transferOwnership_def onlyOwner_def split: if_splits)
next
  case Pause
  with assms show ?thesis
    by (auto simp add: unallocatedLoansZero_def pause_def onlyOwner_def split: if_splits)
next
  case Unpause
  with assms show ?thesis
    by (auto simp add: unallocatedLoansZero_def unpause_def onlyOwner_def split: if_splits)
next
  case (UpdateParams p b m)
  with assms show ?thesis
    by (auto simp add: unallocatedLoansZero_def updateParams_def onlyOwner_def split: if_splits)
next
  case (UpdateOracle a)
  with assms show ?thesis
    by (auto simp add: unallocatedLoansZero_def updateOracle_def onlyOwner_def split: if_splits)
next
  case (SetDemoFixedEthUsdPrice p)
  with assms show ?thesis
    by (auto simp add: unallocatedLoansZero_def setDemoFixedEthUsdPrice_def onlyOwner_def split: if_splits)
next
  case (UpdateRealEstateOracle a)
  with assms show ?thesis
    by (auto simp add: unallocatedLoansZero_def updateRealEstateOracle_def onlyOwner_def split: if_splits)
qed

lemma reachable_unallocated: "reachable s \<Longrightarrow> unallocatedLoansZero s"
proof (induction rule: reachable.induct)
  case (deployed deployer feed)
  show ?case by (simp add: unallocatedLoansZero_def constructor_def)
next
  case (transacted s tx)
  show ?case
  proof (cases "execute s (fst tx) (snd tx)")
    case (Inl err)
    with transacted show ?thesis by (simp add: step_def)
  next
    case (Inr r)
    obtain s' fx where "r = (s', fx)" by (cases r)
    with Inr transacted execute_keeps_unallocated [of s "fst tx" "snd tx" s' fx]
    show ?thesis by (simp add: step_def)
  qed
qed

lemma reachable_run: "reachable s \<Longrightarrow> reachable (run s txs)"
  unfolding run_def
  by (induction txs arbitrary: s) (simp_all add: reachable.transacted)

lemma reachable_guard_free: "reachable s \<Longrightarrow> reentrancyStatus s \<noteq> ENTERED"
  using reachable_invariant [of s] by (simp add: ledgerInvariant_def)

lemma reachable_bonus_bound: "reachable s \<Longrightarrow> liquidationBonusBp s \<le> 10000"
  using reachable_invariant [of s] by (simp add: ledgerInvariant_def)

lemma reachable_price_positive:
  assumes "reachable s" and "getEthUsdPrice s e = Inr p"
  shows "0 < p"
proof (cases "ethUsdFeed s = 0")
  case True
  with assms reachable_invariant [of s] show ?thesis
    by (simp add: getEthUsdPrice_def ledgerInvariant_def)
next
  case False
  with assms(2) show ?thesis
    by (auto simp add: getEthUsdPrice_def bindE_eq_Inr checked_mul_eq_Inr
        split: option.splits if_splits)
qed

section \<open>The example ledgers are reachable\<close>

lemma requestedState_step:
  "step (constructor 9 0)
     (exampleEnv 1 (20 * 10 ^ 18) 900, CreateLoanRequest (10 * 10 ^ 18) 400 5 0 [] 0 [] 0)
   = requestedState"
  by (simp add: step_def createLoanRequest_def whenNotPaused_def getNextRequestId_def Let_def
      checked_mul_def MAX_UINT256_def MAX_INTEREST_RATE_def
      constructor_def exampleEnv_def requestedState_def exampleRequest_def zeroRequest_def)

lemma exampleState_step:
  "step requestedState (exampleEnv 2 (10 * 10 ^ 18) 1000, FundLoanRequest 0) = exampleState"
  by (simp add: step_def fundLoanRequest_def nonReentrant_def whenNotPaused_def getNextLoanId_def
      Let_def getEthUsdPrice_def checked_mul_def checked_add_def MAX_UINT256_def DAY_def
      constructor_def exampleEnv_def requestedState_def exampleState_def exampleRequest_def
      exampleLoan_def zeroLoan_def)

lemma exampleState_reachable: "reachable exampleState"
  using reachable.transacted [OF reachable.transacted [OF reachable.deployed [of 9 0]]]
    requestedState_step exampleState_step
  by metis

lemma settledState_step:
  "step exampleState (exampleEnv 3 0 (1001 + 400 * 86400), LiquidateExpiredLoan 0) = settledState"
  by (simp add: step_def liquidateExpiredLoan_def nonReentrant_def Let_def
      checked_mul_def checked_div_def checked_sub_def MAX_UINT256_def
      constructor_def exampleEnv_def requestedState_def exampleState_def settledState_def
      exampleLoan_def)

lemma settledState_reachable: "reachable settledState"
  using reachable.transacted [OF exampleState_reachable] settledState_step by metis

lemma pendingState_step:
  "step exampleState
     (exampleEnv 4 (2 * 10 ^ 18) 1100, CreateLoanRequest (10 ^ 18) 30 3 0 [] 0 [] 0)
   = pendingState"
  by (simp add: step_def createLoanRequest_def whenNotPaused_def getNextRequestId_def Let_def
      checked_mul_def MAX_UINT256_def MAX_INTEREST_RATE_def
      constructor_def exampleEnv_def requestedState_def exampleState_def pendingState_def
      pendingRequest_def zeroRequest_def)

lemma pendingState_reachable: "reachable pendingState"
  using reachable.transacted [OF exampleState_reachable] pendingState_step by metis

lemma feedState_step: "step pendingState (exampleEnv 9 0 1200, UpdateOracle 7) = feedState"
  by (simp add: step_def updateOracle_def onlyOwner_def constructor_def exampleEnv_def
      requestedState_def exampleState_def pendingState_def feedState_def)

lemma feedState_reachable: "reachable feedState"
  using reachable.transacted [OF pendingState_reachable] feedState_step by metis

lemma pausedState_step: "step pendingState (exampleEnv 9 0 1200, Pause) = pausedState"
  by (simp add: step_def pause_def onlyOwner_def constructor_def exampleEnv_def
      requestedState_def exampleState_def pendingState_def pausedState_def)

lemma pausedState_reachable: "reachable pausedState"
  using reachable.transacted [OF pendingState_reachable] pausedState_step by metis

lemma phantomState_step:
  "step exampleState (exampleEnv 3 0 2000, LiquidateExpiredLoan 5) = phantomState"
  by (simp add: step_def liquidateExpiredLoan_def nonReentrant_def Let_def
      checked_mul_def checked_div_def checked_sub_def MAX_UINT256_def
      constructor_def exampleEnv_def requestedState_def exampleState_def phantomState_def
      zeroLoan_def)

lemma phantomState_reachable: "reachable phantomState"
  using reachable.transacted [OF exampleState_reachable] phantomState_step by metis

lemma dustRequestedState_step:
  "step (constructor 9 0) (exampleEnv 1 2000 900, CreateLoanRequest 1000 400 5 0 [] 0 [] 0)
   = dustRequestedState"
  by (simp add: step_def createLoanRequest_def whenNotPaused_def getNextRequestId_def Let_def
      checked_mul_def MAX_UINT256_def MAX_INTEREST_RATE_def
      constructor_def exampleEnv_def dustRequestedState_def dustRequest_def exampleRequest_def
      zeroRequest_def)

lemma dustState_step:
  "step dustRequestedState (exampleEnv 2 1000 1000, FundLoanRequest 0) = dustState"
  by (simp add: step_def fundLoanRequest_def nonReentrant_def whenNotPaused_def getNextLoanId_def
      Let_def getEthUsdPrice_def checked_mul_def checked_add_def MAX_UINT256_def DAY_def
      constructor_def exampleEnv_def dustRequestedState_def dustState_def dustRequest_def
      dustLoan_def exampleRequest_def exampleLoan_def zeroLoan_def)

lemma dustState_reachable: "reachable dustState"
  using reachable.transacted [OF reachable.transacted [OF reachable.deployed [of 9 0]]]
    dustRequestedState_step dustState_step
  by metis

text \<open>The fields of the example ledgers that the examples below read.\<close>

lemma exampleState_fields:
  "reentrancyStatus exampleState = NOT_ENTERED" "ethUsdFeed exampleState = 0"
  "demoFixedEthUsdPrice exampleState = 2000 * 10 ^ 18" "owner exampleState = 9"
  "\<not> paused exampleState" "overdueRepayPenaltyBp exampleState = 300"
  "liquidationBonusBp exampleState = 300" "maxPriceStalenessSeconds exampleState = 3600"
  "activeLoans exampleState 0 = exampleLoan" "totalLoans exampleState = 1"
  by (simp_all add: exampleState_def requestedState_def constructor_def)

lemma settledState_fields:
  "reentrancyStatus settledState = NOT_ENTERED" "ethUsdFeed settledState = 0"
  "demoFixedEthUsdPrice settledState = 2000 * 10 ^ 18" "\<not> paused settledState"
  "activeLoans settledState 0 = exampleLoan\<lparr>isRepaid := True\<rparr>"
  by (simp_all add: settledState_def exampleState_fields)

lemma pendingState_fields:
  "reentrancyStatus pendingState = NOT_ENTERED" "ethUsdFeed pendingState = 0"
  "\<not> paused pendingState" "maxPriceStalenessSeconds pendingState = 3600"
  "activeLoans pendingState 0 = exampleLoan" "loanRequests pendingState (Suc 0) = pendingRequest"
  by (simp_all add: pendingState_def exampleState_fields)

lemma feedState_fields:
  "reentrancyStatus feedState = NOT_ENTERED" "ethUsdFeed feedState = 7"
  "\<not> paused feedState" "maxPriceStalenessSeconds feedState = 3600"
  "activeLoans feedState 0 = exampleLoan" "loanRequests feedState (Suc 0) = pendingRequest"
  by (simp_all add: feedState_def pendingState_fields)

lemma examplePrice:
  "getEthUsdPrice exampleState (exampleEnv who val now) = Inr (2000 * 10 ^ 18)"
  by (simp add: getEthUsdPrice_def exampleState_fields)

section \<open>The amount due\<close>

text \<open>
  Claim C1. For a loan that is not repaid, \<open>calculateAmountDueEth\<close> returns exactly the
  specification's formula
  \<open>((loanAmount * initialPrice / 10^18) + ((loanAmount * initialPrice / 10^18) * rate * elapsed
  / (365 days * 100))) * 10^18 / currentPrice\<close> with \<open>elapsed = now - start\<close> if
  \<open>now > start\<close> and 0 otherwise, every division truncating, where \<open>currentPrice\<close> is what
  the price read returns and the intermediate products fit 256 bits; for a loan whose
  \<open>isRepaid\<close> flag is set it fails with \<open>AlreadyRepaid\<close>. At 10 units, 5 percent, a price
  of 2000 at funding and now, and 365 days elapsed, the result is 10.5 units.
\<close>

theorem calculateAmountDueEth_formula:
  "(reachable s \<and> \<not> isRepaid (activeLoans s i) \<and> getEthUsdPrice s e = Inr p \<and>
    dueInRange (loanAmount (activeLoans s i)) (interestRate (activeLoans s i))
      (initialEthPrice (activeLoans s i))
      (elapsedSince (timestamp e) (startTimestamp (activeLoans s i)))
    \<longrightarrow> calculateAmountDueEth s e i =
          Inr (specAmountDue (loanAmount (activeLoans s i)) (interestRate (activeLoans s i))
                 (initialEthPrice (activeLoans s i))
                 (elapsedSince (timestamp e) (startTimestamp (activeLoans s i))) p))
   \<and> (isRepaid (activeLoans s i) \<longrightarrow> calculateAmountDueEth s e i = Inl AlreadyRepaid)"
proof (intro conjI impI)
  assume a: "reachable s \<and> \<not> isRepaid (activeLoans s i) \<and> getEthUsdPrice s e = Inr p \<and>
    dueInRange (loanAmount (activeLoans s i)) (interestRate (activeLoans s i))
      (initialEthPrice (activeLoans s i))
      (elapsedSince (timestamp e) (startTimestamp (activeLoans s i)))"
  then have "0 < p"
    using reachable_price_positive [of s e p] by simp
  with a show "calculateAmountDueEth s e i =
          Inr (specAmountDue (loanAmount (activeLoans s i)) (interestRate (activeLoans s i))
                 (initialEthPrice (activeLoans s i))
                 (elapsedSince (timestamp e) (startTimestamp (activeLoans s i))) p)"
    by (simp add: calculateAmountDueEth_def dueInRange_def valueInRange_def specTotalValue_def
        Let_def elapsedSince_def specAmountDue_def
        checked_mul_ok checked_add_ok checked_div_ok SCALE_def YEAR_def)
next
  assume "isRepaid (activeLoans s i)"
  then show "calculateAmountDueEth s e i = Inl AlreadyRepaid"
    by (simp add: calculateAmountDueEth_def)
qed

theorem calculateAmountDueEth_formula_witness:
  "calculateAmountDueEth exampleState (exampleEnv 1 0 (1000 + 365 * 86400)) 0 = Inr (105 * 10 ^ 17)
   \<and> calculateAmountDueEth settledState (exampleEnv 1 0 (1000 + 365 * 86400)) 0 = Inl AlreadyRepaid"
proof -
  let ?e = "exampleEnv 1 0 (1000 + 365 * 86400)"
  have range: "dueInRange (10 * 10 ^ 18) 5 (2000 * 10 ^ 18) (365 * 86400)"
    by (simp add: dueInRange_def valueInRange_def specTotalValue_def MAX_UINT256_def)
  have "calculateAmountDueEth exampleState ?e 0 =
          Inr (specAmountDue (10 * 10 ^ 18) 5 (2000 * 10 ^ 18) (365 * 86400) (2000 * 10 ^ 18))"
    using calculateAmountDueEth_formula [of exampleState 0 ?e "2000 * 10 ^ 18"]
      exampleState_reachable examplePrice [of 1 0 "1000 + 365 * 86400"] range
    by (simp add: exampleState_fields exampleLoan_def exampleEnv_def elapsedSince_def)
  moreover have "calculateAmountDueEth settledState ?e 0 = Inl AlreadyRepaid"
    using calculateAmountDueEth_formula [of settledState 0 ?e 0]
    by (simp add: settledState_fields exampleLoan_def)
  ultimately show ?thesis by (simp add: specAmountDue_def)
qed

section \<open>Creating a request\<close>

text \<open>
  Claim C2. A \<open>createLoanRequest\<close> call with a positive amount, a positive duration and a
  rate in 1..7, made while the platform is not paused, succeeds if and only if the attached
  stake equals exactly twice the amount. With any other stake (one unit less or one unit more
  included) it fails and the ledger is left as it was; the failure is \<open>CollateralMismatch\<close>
  whenever twice the amount is itself a 256-bit value (for an amount of \<open>2^255\<close> or more the
  checked multiplication \<open>_loanAmount * 2\<close> reverts before the comparison is made).
\<close>

theorem createLoanRequest_collateral:
  assumes "\<not> paused s" and "0 < amount" and "0 < days" and "0 < rate" and "rate \<le> 7"
    and "msgValue e \<le> MAX_UINT256"
  shows "(succeeds (createLoanRequest s e amount days rate mc ec pc ac u) \<longleftrightarrow> msgValue e = 2 * amount)
    \<and> (msgValue e \<noteq> 2 * amount \<longrightarrow>
          step s (e, CreateLoanRequest amount days rate mc ec pc ac u) = s)
    \<and> (msgValue e \<noteq> 2 * amount \<and> 2 * amount \<le> MAX_UINT256 \<longrightarrow>
          createLoanRequest s e amount days rate mc ec pc ac u = Inl CollateralMismatch)"
  using assms
  by (auto simp add: createLoanRequest_def whenNotPaused_def checked_mul_def MAX_INTEREST_RATE_def
      getNextRequestId_def Let_def step_def mult.commute)

theorem createLoanRequest_collateral_witness:
  "succeeds (createLoanRequest (constructor 9 0) (exampleEnv 1 (20 * 10 ^ 18) 1000) (10 * 10 ^ 18) 400 5 0 [] 0 [] 0)
   \<and> createLoanRequest (constructor 9 0) (exampleEnv 1 (20 * 10 ^ 18 - 1) 1000) (10 * 10 ^ 18) 400 5 0 [] 0 [] 0 = Inl CollateralMismatch
   \<and> createLoanRequest (constructor 9 0) (exampleEnv 1 (20 * 10 ^ 18 + 1) 1000) (10 * 10 ^ 18) 400 5 0 [] 0 [] 0 = Inl CollateralMismatch
   \<and> step (constructor 9 0) (exampleEnv 1 (20 * 10 ^ 18 + 1) 1000, CreateLoanRequest (10 * 10 ^ 18) 400 5 0 [] 0 [] 0) = constructor 9 0"
proof -
  have p: "\<not> paused (constructor 9 0)" by (simp add: constructor_def)
  have r: "2 * (10 * 10 ^ 18) \<le> MAX_UINT256" by (simp add: MAX_UINT256_def)
  have v: "msgValue (exampleEnv 1 (20 * 10 ^ 18) 1000) \<le> MAX_UINT256"
    "msgValue (exampleEnv 1 (20 * 10 ^ 18 - 1) 1000) \<le> MAX_UINT256"
    "msgValue (exampleEnv 1 (20 * 10 ^ 18 + 1) 1000) \<le> MAX_UINT256"
    by (simp_all add: exampleEnv_def MAX_UINT256_def)
  note t = createLoanRequest_collateral [OF p, of "10 * 10 ^ 18" 400 5 _ 0 "[]" 0 "[]" 0]
  show ?thesis
    using t [OF _ _ _ _ v(1)] t [OF _ _ _ _ v(2)] t [OF _ _ _ _ v(3)] r
    by (simp add: exampleEnv_def)
qed

section \<open>Liquidation\<close>

text \<open>
  Claim C3. For a loan that is not repaid, \<open>liquidateExpiredLoan\<close> fails with \<open>NotExpired\<close>
  whenever \<open>now \<le> end\<close>. Whenever \<open>now > end\<close> it succeeds for any caller (given that
  the product \<open>stake * liquidationBonusBp\<close> fits 256 bits and the two outbound transfers go
  through): it pays \<open>bonus = stake * liquidationBonusBp / 10000\<close> (truncating) to the
  caller and \<open>stake - bonus\<close> to the lender, the two payouts sum to exactly the stake, and
  the bonus never exceeds the exact fraction \<open>stake * liquidationBonusBp / 10000\<close>, so
  truncation never favours the caller.
\<close>

theorem liquidateExpiredLoan_split:
  assumes "reachable s" and "\<not> isRepaid (activeLoans s i)"
  shows "(timestamp e \<le> endTime (activeLoans s i) \<longrightarrow> liquidateExpiredLoan s e i = Inl NotExpired)
    \<and> (timestamp e > endTime (activeLoans s i)
        \<and> stake (activeLoans s i) * liquidationBonusBp s \<le> MAX_UINT256
        \<and> callSucceeds e (sender e) (stake (activeLoans s i) * liquidationBonusBp s div 10000)
        \<and> callSucceeds e (lender (activeLoans s i))
             (stake (activeLoans s i) - stake (activeLoans s i) * liquidationBonusBp s div 10000)
       \<longrightarrow> liquidateExpiredLoan s e i =
             Inr (s\<lparr> activeLoans := (activeLoans s)(i := (activeLoans s i)\<lparr>isRepaid := True\<rparr>),
                     reentrancyStatus := NOT_ENTERED \<rparr>,
                  [Send (sender e) (stake (activeLoans s i) * liquidationBonusBp s div 10000),
                   Send (lender (activeLoans s i))
                     (stake (activeLoans s i) - stake (activeLoans s i) * liquidationBonusBp s div 10000),
                   Emit (LoanLiquidated i (lender (activeLoans s i)) (stake (activeLoans s i)))])
           \<and> stake (activeLoans s i) * liquidationBonusBp s div 10000
               + (stake (activeLoans s i) - stake (activeLoans s i) * liquidationBonusBp s div 10000)
              = stake (activeLoans s i)
           \<and> (stake (activeLoans s i) * liquidationBonusBp s div 10000) * 10000
              \<le> stake (activeLoans s i) * liquidationBonusBp s)"
  using assms(2) reachable_guard_free [OF assms(1)] reachable_bonus_bound [OF assms(1)]
  by (auto simp add: liquidateExpiredLoan_def nonReentrant_def Let_def checked_mul_ok checked_div_ok
      checked_sub_ok bonus_le_stake)

theorem liquidateExpiredLoan_split_witness:
  "liquidateExpiredLoan exampleState (exampleEnv 3 0 (1000 + 400 * 86400)) 0 = Inl NotExpired
   \<and> liquidateExpiredLoan exampleState (exampleEnv 3 0 (1001 + 400 * 86400)) 0 =
       Inr (settledState, [Send 3 (6 * 10 ^ 17), Send 2 (194 * 10 ^ 17), Emit (LoanLiquidated 0 2 (20 * 10 ^ 18))])
   \<and> (6 * 10 ^ 17 + 194 * 10 ^ 17 = (20 * 10 ^ 18 :: nat))"
proof -
  have u: "\<not> isRepaid (activeLoans exampleState 0)"
    by (simp add: exampleState_fields exampleLoan_def)
  have st: "exampleState\<lparr> activeLoans := (activeLoans exampleState)(0 := exampleLoan\<lparr>isRepaid := True\<rparr>),
                     reentrancyStatus := NOT_ENTERED \<rparr> = settledState"
    by (simp add: settledState_def exampleState_def requestedState_def constructor_def)
  show ?thesis
    using liquidateExpiredLoan_split [OF exampleState_reachable u, of "exampleEnv 3 0 (1000 + 400 * 86400)"]
      liquidateExpiredLoan_split [OF exampleState_reachable u, of "exampleEnv 3 0 (1001 + 400 * 86400)"] st
    by (simp add: exampleState_fields exampleLoan_def exampleEnv_def MAX_UINT256_def)
qed

section \<open>The amount due over time\<close>

text \<open>
  Claim C4, as amended. For a loan that is not repaid and a fixed price, the amount due is
  monotonically non-decreasing in the elapsed time: if the computation returns \<open>d2\<close> at the
  later time it returns at the earlier time too, and what it returns there is at most
  \<open>d2\<close>. It is strictly smaller whenever the reference value accrued between the two times,
  scaled by \<open>10^18\<close>, is at least the current price, that is, worth at least one smallest
  collateral unit. A positive rate alone does not make the amount strictly increasing: both
  divisions truncate, and the dust loan owes 1000 units after 10 seconds and after 20.
\<close>

theorem amountDue_monotone:
  assumes "timestamp e1 \<le> timestamp e2"
    and "getEthUsdPrice s e1 = Inr p" and "getEthUsdPrice s e2 = Inr p"
    and "calculateAmountDueEth s e2 i = Inr d2"
    and "d1 = specAmountDue (loanAmount (activeLoans s i)) (interestRate (activeLoans s i))
           (initialEthPrice (activeLoans s i))
           (elapsedSince (timestamp e1) (startTimestamp (activeLoans s i))) p"
  shows "calculateAmountDueEth s e1 i = Inr d1 \<and> d1 \<le> d2
    \<and> (p \<le> (specTotalValue (loanAmount (activeLoans s i)) (interestRate (activeLoans s i))
                (initialEthPrice (activeLoans s i))
                (elapsedSince (timestamp e2) (startTimestamp (activeLoans s i)))
              - specTotalValue (loanAmount (activeLoans s i)) (interestRate (activeLoans s i))
                (initialEthPrice (activeLoans s i))
                (elapsedSince (timestamp e1) (startTimestamp (activeLoans s i)))) * 10 ^ 18
        \<longrightarrow> d1 < d2)"
proof -
  let ?L = "activeLoans s i"
  let ?t1 = "elapsedSince (timestamp e1) (startTimestamp ?L)"
  let ?t2 = "elapsedSince (timestamp e2) (startTimestamp ?L)"
  have t: "?t1 \<le> ?t2"
    using assms(1) by (auto simp add: elapsedSince_def)
  from calculateAmountDueEth_Inr [OF assms(4) assms(3)]
  have u: "\<not> isRepaid ?L" and pos: "0 < p"
    and r2: "dueInRange (loanAmount ?L) (interestRate ?L) (initialEthPrice ?L) ?t2"
    and d2: "d2 = specAmountDue (loanAmount ?L) (interestRate ?L) (initialEthPrice ?L) ?t2 p"
    by simp_all
  have r1: "dueInRange (loanAmount ?L) (interestRate ?L) (initialEthPrice ?L) ?t1"
    using t r2 by (rule dueInRange_earlier)
  have c1: "calculateAmountDueEth s e1 i = Inr d1"
    using u assms(2) pos r1 assms(5)
    by (simp add: calculateAmountDueEth_def dueInRange_def valueInRange_def specTotalValue_def
      Let_def elapsedSince_def specAmountDue_def
      checked_mul_ok checked_add_ok checked_div_ok SCALE_def YEAR_def)
  have le: "d1 \<le> d2"
    unfolding assms(5) d2 using t by (rule specAmountDue_mono)
  have lt: "d1 < d2"
    if "p \<le> (specTotalValue (loanAmount ?L) (interestRate ?L) (initialEthPrice ?L) ?t2
              - specTotalValue (loanAmount ?L) (interestRate ?L) (initialEthPrice ?L) ?t1) * 10 ^ 18"
    unfolding assms(5) d2 using pos t that by (rule specAmountDue_strict)
  from c1 le lt show ?thesis by blast
qed

theorem amountDue_monotone_witness:
  "calculateAmountDueEth exampleState (exampleEnv 1 0 (1000 + 401 * 86400)) 0 = Inr 10549315068493150684
   \<and> calculateAmountDueEth exampleState (exampleEnv 1 0 (1000 + 365 * 86400)) 0 = Inr (105 * 10 ^ 17)
   \<and> (105 * 10 ^ 17 :: nat) < 10549315068493150684"
proof -
  let ?e1 = "exampleEnv 1 0 (1000 + 365 * 86400)"
  let ?e2 = "exampleEnv 1 0 (1000 + 401 * 86400)"
  note s = exampleState_fields
  have t: "timestamp ?e1 \<le> timestamp ?e2"
    by (simp add: exampleEnv_def)
  have later: "calculateAmountDueEth exampleState ?e2 0 = Inr 10549315068493150684"
    by (simp add: calculateAmountDueEth_def s exampleLoan_def exampleEnv_def getEthUsdPrice_def
        checked_mul_def checked_add_def checked_div_def SCALE_def YEAR_def MAX_UINT256_def)
  have d1: "105 * 10 ^ 17 = specAmountDue (loanAmount (activeLoans exampleState 0))
      (interestRate (activeLoans exampleState 0)) (initialEthPrice (activeLoans exampleState 0))
      (elapsedSince (timestamp ?e1) (startTimestamp (activeLoans exampleState 0))) (2000 * 10 ^ 18)"
    by (simp add: s exampleLoan_def exampleEnv_def elapsedSince_def specAmountDue_def)
  show ?thesis
    using amountDue_monotone [OF t examplePrice examplePrice later d1] later
    by (simp add: s exampleLoan_def exampleEnv_def elapsedSince_def specTotalValue_def)
qed

text \<open>
  Claim C4 as stated fails: the rate is positive, yet the amount due is the same 10 and 20
  seconds after funding.
\<close>

theorem amountDue_not_strict:
  "0 < interestRate (activeLoans dustState 0)
   \<and> calculateAmountDueEth dustState (exampleEnv 1 0 1010) 0 = Inr 1000
   \<and> calculateAmountDueEth dustState (exampleEnv 1 0 1020) 0 = Inr 1000"
  by (simp add: calculateAmountDueEth_def dustState_def dustRequestedState_def dustLoan_def
      exampleLoan_def constructor_def exampleEnv_def getEthUsdPrice_def
      checked_mul_def checked_add_def checked_div_def SCALE_def YEAR_def MAX_UINT256_def)

section \<open>Settlement is terminal\<close>

text \<open>
  Claim C5, as amended. Once \<open>isRepaid\<close> of a loan is true (set by a successful repayment,
  by a successful liquidation, or found set), it stays true through every sequence of
  transactions, and every later \<open>repayLoan\<close> or \<open>liquidateExpiredLoan\<close> call on that loan
  fails and changes no state. Liquidation fails with \<open>AlreadyRepaid\<close>; repayment fails with
  \<open>AlreadyRepaid\<close> when the caller is the loan's borrower and the platform is not paused
  (the pause check and the borrower check come first and answer with their own errors
  otherwise).
\<close>

theorem settlement_is_terminal:
  "(repayLoan s0 e0 i a0 = Inr (s, fx) \<or> liquidateExpiredLoan s0 e0 i = Inr (s, fx)
       \<or> isRepaid (activeLoans s i)
    \<longrightarrow> isRepaid (activeLoans (run s txs) i)
      \<and> \<not> succeeds (repayLoan (run s txs) e i amount)
      \<and> \<not> succeeds (liquidateExpiredLoan (run s txs) e i)
      \<and> step (run s txs) (e, RepayLoan i amount) = run s txs
      \<and> step (run s txs) (e, LiquidateExpiredLoan i) = run s txs
      \<and> (reachable s \<longrightarrow>
           liquidateExpiredLoan (run s txs) e i = Inl AlreadyRepaid
         \<and> (\<not> paused (run s txs) \<and> sender e = borrower (activeLoans (run s txs) i)
            \<longrightarrow> repayLoan (run s txs) e i amount = Inl AlreadyRepaid)))"
proof (intro impI)
  assume "repayLoan s0 e0 i a0 = Inr (s, fx) \<or> liquidateExpiredLoan s0 e0 i = Inr (s, fx)
    \<or> isRepaid (activeLoans s i)"
  then have "isRepaid (activeLoans s i)"
    using repay_sets_isRepaid [of s0 e0 i a0 s fx] liquidate_sets_isRepaid [of s0 e0 i s fx]
    by blast
  then have r: "isRepaid (activeLoans (run s txs) i)"
    by (rule run_keeps_isRepaid)
  have f1: "\<not> succeeds (repayLoan (run s txs) e i amount)"
    using r by (rule repaid_repay_fails)
  have f2: "\<not> succeeds (liquidateExpiredLoan (run s txs) e i)"
    using r by (rule repaid_liquidate_fails)
  have s1: "step (run s txs) (e, RepayLoan i amount) = run s txs"
    using f1 by (simp add: step_def commit_fails)
  have s2: "step (run s txs) (e, LiquidateExpiredLoan i) = run s txs"
    using f2 by (simp add: step_def commit_fails)
  have g: "reentrancyStatus (run s txs) \<noteq> ENTERED" if "reachable s"
    using that by (intro reachable_guard_free reachable_run)
  have l: "liquidateExpiredLoan (run s txs) e i = Inl AlreadyRepaid" if "reachable s"
    using r g [OF that] by (simp add: liquidateExpiredLoan_def nonReentrant_def Let_def)
  have p: "repayLoan (run s txs) e i amount = Inl AlreadyRepaid"
    if "reachable s" and "\<not> paused (run s txs) \<and> sender e = borrower (activeLoans (run s txs) i)"
    using r g [OF that(1)] that(2)
    by (simp add: repayLoan_def nonReentrant_def whenNotPaused_def Let_def)
  from r f1 f2 s1 s2 l p
  show "isRepaid (activeLoans (run s txs) i)
      \<and> \<not> succeeds (repayLoan (run s txs) e i amount)
      \<and> \<not> succeeds (liquidateExpiredLoan (run s txs) e i)
      \<and> step (run s txs) (e, RepayLoan i amount) = run s txs
      \<and> step (run s txs) (e, LiquidateExpiredLoan i) = run s txs
      \<and> (reachable s \<longrightarrow>
           liquidateExpiredLoan (run s txs) e i = Inl AlreadyRepaid
         \<and> (\<not> paused (run s txs) \<and> sender e = borrower (activeLoans (run s txs) i)
            \<longrightarrow> repayLoan (run s txs) e i amount = Inl AlreadyRepaid))"
    by blast
qed

theorem settlement_is_terminal_witness:
  "isRepaid (activeLoans (run settledState [(exampleEnv 9 0 3000, Pause), (exampleEnv 9 0 3001, Unpause)]) 0)
   \<and> liquidateExpiredLoan settledState (exampleEnv 3 0 (1001 + 400 * 86400)) 0 = Inl AlreadyRepaid
   \<and> repayLoan settledState (exampleEnv 1 (11 * 10 ^ 18) 2000) 0 0 = Inl AlreadyRepaid
   \<and> step settledState (exampleEnv 3 (11 * 10 ^ 18) 2000, RepayLoan 0 0) = settledState"
proof -
  note s = settledState_fields
  have r: "isRepaid (activeLoans settledState 0)"
    by (simp add: s)
  have b: "borrower (activeLoans settledState 0) = 1"
    by (simp add: s exampleLoan_def)
  have e: "run settledState [] = settledState"
    by (simp add: run_def)
  have a: "isRepaid (activeLoans (run settledState [(exampleEnv 9 0 3000, Pause), (exampleEnv 9 0 3001, Unpause)]) 0)"
    using settlement_is_terminal [where s = settledState and i = 0
        and txs = "[(exampleEnv 9 0 3000, Pause), (exampleEnv 9 0 3001, Unpause)]"] r
    by simp
  have l: "liquidateExpiredLoan settledState (exampleEnv 3 0 (1001 + 400 * 86400)) 0 = Inl AlreadyRepaid"
    using settlement_is_terminal [where s = settledState and i = 0 and txs = "[]"
        and e = "exampleEnv 3 0 (1001 + 400 * 86400)"] r settledState_reachable
    by (simp add: e)
  have c: "repayLoan settledState (exampleEnv 1 (11 * 10 ^ 18) 2000) 0 0 = Inl AlreadyRepaid"
    using settlement_is_terminal [where s = settledState and i = 0 and txs = "[]"
        and e = "exampleEnv 1 (11 * 10 ^ 18) 2000" and amount = 0] r b settledState_reachable
    by (simp add: e s exampleEnv_def)
  have d: "step settledState (exampleEnv 3 (11 * 10 ^ 18) 2000, RepayLoan 0 0) = settledState"
    using settlement_is_terminal [where s = settledState and i = 0 and txs = "[]"
        and e = "exampleEnv 3 (11 * 10 ^ 18) 2000" and amount = 0] r
    by (simp add: e)
  from a l c d show ?thesis by blast
qed

text \<open>
  Claim C5 as stated fails: a repay call on a settled loan by someone who is not its
  borrower is refused with \<open>NotBorrower\<close>, not with \<open>AlreadyRepaid\<close>.
\<close>

theorem settled_repay_by_stranger:
  "isRepaid (activeLoans settledState 0)
   \<and> repayLoan settledState (exampleEnv 3 (11 * 10 ^ 18) 2000) 0 0 = Inl NotBorrower
   \<and> repayLoan settledState (exampleEnv 3 (11 * 10 ^ 18) 2000) 0 0 \<noteq> Inl AlreadyRepaid"
  by (simp add: repayLoan_def nonReentrant_def whenNotPaused_def settledState_fields
      exampleLoan_def exampleEnv_def)

section \<open>Price failures\<close>

text \<open>
  Claim C6. With no feed configured the price read returns the operator-set fixed price.
  With a feed configured the fixed price plays no part in the price read, and when the
  feed's answer is not positive (\<open>InvalidPrice\<close>) or the answer is positive but older than
  the staleness bound (\<open>StalePrice\<close>), the price read fails with that error and so does
  every price-dependent operation: funding, the amount-due computation and repayment never
  succeed, and each fails with exactly that error once it gets to the price read, its own
  earlier checks passed (not paused, request active and amount exact for funding; loan not
  repaid and reference value in range for the amount due; in addition caller the borrower
  and a positive attached value for repayment).
\<close>

theorem price_feed_failures:
  "(ethUsdFeed s = 0 \<longrightarrow> getEthUsdPrice s e = Inr (demoFixedEthUsdPrice s))
   \<and> (ethUsdFeed s \<noteq> 0 \<longrightarrow>
        getEthUsdPrice (s\<lparr>demoFixedEthUsdPrice := otherPrice\<rparr>) e = getEthUsdPrice s e)
   \<and> (ethUsdFeed s \<noteq> 0 \<and> latestRoundData e (ethUsdFeed s) = Some rd
       \<and> (answer rd \<le> 0 \<or> maxPriceStalenessSeconds s < timestamp e - updatedAt rd)
       \<and> err = (if answer rd \<le> 0 then InvalidPrice else StalePrice)
      \<longrightarrow> getEthUsdPrice s e = Inl err
        \<and> \<not> succeeds (fundLoanRequest s e requestId)
        \<and> \<not> succeeds (calculateAmountDueEth s e loanId)
        \<and> \<not> succeeds (repayLoan s e loanId amount)
        \<and> (reachable s \<and> \<not> paused s \<and> rq_isActive (loanRequests s requestId)
            \<and> msgValue e = rq_loanAmount (loanRequests s requestId)
            \<and> timestamp e + rq_duration (loanRequests s requestId) * 86400 \<le> MAX_UINT256
           \<longrightarrow> fundLoanRequest s e requestId = Inl err)
        \<and> (\<not> isRepaid (activeLoans s loanId)
            \<and> valueInRange (loanAmount (activeLoans s loanId)) (interestRate (activeLoans s loanId))
                 (initialEthPrice (activeLoans s loanId))
                 (elapsedSince (timestamp e) (startTimestamp (activeLoans s loanId)))
           \<longrightarrow> calculateAmountDueEth s e loanId = Inl err
             \<and> (reachable s \<and> \<not> paused s
                 \<and> sender e = borrower (activeLoans s loanId) \<and> 0 < msgValue e
                \<longrightarrow> repayLoan s e loanId amount = Inl err)))"
proof (intro conjI impI)
  assume "ethUsdFeed s = 0"
  then show "getEthUsdPrice s e = Inr (demoFixedEthUsdPrice s)"
    by (simp add: getEthUsdPrice_def)
next
  assume "ethUsdFeed s \<noteq> 0"
  then show "getEthUsdPrice (s\<lparr>demoFixedEthUsdPrice := otherPrice\<rparr>) e = getEthUsdPrice s e"
    by (simp add: getEthUsdPrice_def split: option.splits)
next
  assume a: "ethUsdFeed s \<noteq> 0 \<and> latestRoundData e (ethUsdFeed s) = Some rd
       \<and> (answer rd \<le> 0 \<or> maxPriceStalenessSeconds s < timestamp e - updatedAt rd)
       \<and> err = (if answer rd \<le> 0 then InvalidPrice else StalePrice)"
  then show p: "getEthUsdPrice s e = Inl err"
    using feed_failure [of s e rd] by simp
  show "\<not> succeeds (fundLoanRequest s e requestId)"
    by (rule fund_price_fails, rule p)
  show "\<not> succeeds (calculateAmountDueEth s e loanId)"
    by (rule calc_price_fails, rule p)
  show "\<not> succeeds (repayLoan s e loanId amount)"
    by (rule repay_price_fails, rule p)
  {
    assume "reachable s \<and> \<not> paused s \<and> rq_isActive (loanRequests s requestId)
            \<and> msgValue e = rq_loanAmount (loanRequests s requestId)
            \<and> timestamp e + rq_duration (loanRequests s requestId) * 86400 \<le> MAX_UINT256"
    then show "fundLoanRequest s e requestId = Inl err"
      using p reachable_guard_free [of s] by (simp add: fund_price_error)
  }
  {
    assume b: "\<not> isRepaid (activeLoans s loanId)
            \<and> valueInRange (loanAmount (activeLoans s loanId)) (interestRate (activeLoans s loanId))
                 (initialEthPrice (activeLoans s loanId))
                 (elapsedSince (timestamp e) (startTimestamp (activeLoans s loanId)))"
    then show "calculateAmountDueEth s e loanId = Inl err"
      using p by (simp add: calc_price_error)
    assume "reachable s \<and> \<not> paused s
                 \<and> sender e = borrower (activeLoans s loanId) \<and> 0 < msgValue e"
    then show "repayLoan s e loanId amount = Inl err"
      using p b reachable_guard_free [of s] by (simp add: repay_price_error)
  }
qed

theorem price_feed_failures_witness:
  "getEthUsdPrice exampleState (exampleEnv 1 0 5000) = Inr (2000 * 10 ^ 18)
   \<and> getEthUsdPrice feedState (feedEnv 3 (10 ^ 18) 10000 (2000 * 10 ^ 8) 1000) = Inl StalePrice
   \<and> fundLoanRequest feedState (feedEnv 3 (10 ^ 18) 10000 (2000 * 10 ^ 8) 1000) 1 = Inl StalePrice
   \<and> calculateAmountDueEth feedState (feedEnv 3 (10 ^ 18) 10000 (2000 * 10 ^ 8) 1000) 0 = Inl StalePrice
   \<and> repayLoan feedState (feedEnv 1 (11 * 10 ^ 18) 10000 (2000 * 10 ^ 8) 1000) 0 0 = Inl StalePrice
   \<and> getEthUsdPrice feedState (feedEnv 3 (10 ^ 18) 10000 0 9999) = Inl InvalidPrice
   \<and> fundLoanRequest feedState (feedEnv 3 (10 ^ 18) 10000 0 9999) 1 = Inl InvalidPrice
   \<and> getEthUsdPrice (feedState\<lparr>demoFixedEthUsdPrice := 1\<rparr>) (feedEnv 3 (10 ^ 18) 10000 (2000 * 10 ^ 8) 9000)
       = getEthUsdPrice feedState (feedEnv 3 (10 ^ 18) 10000 (2000 * 10 ^ 8) 9000)"
proof -
  let ?rs = "\<lparr> roundId = 1, answer = 2000 * 10 ^ 8, startedAt = 1000, updatedAt = 1000, answeredInRound = 1 \<rparr>"
  let ?ri = "\<lparr> roundId = 1, answer = 0, startedAt = 9999, updatedAt = 9999, answeredInRound = 1 \<rparr>"
  note s = feedState_fields
  have v: "valueInRange (10 * 10 ^ 18) 5 (2000 * 10 ^ 18) 9000"
    by (simp add: valueInRange_def specTotalValue_def MAX_UINT256_def)
  have m: "10000 + 30 * 86400 \<le> MAX_UINT256"
    by (simp add: MAX_UINT256_def)
  have demo: "getEthUsdPrice exampleState (exampleEnv 1 0 5000) = Inr (2000 * 10 ^ 18)"
    using price_feed_failures [of exampleState "exampleEnv 1 0 5000"] by (simp add: exampleState_fields)
  have stale: "getEthUsdPrice feedState (feedEnv 3 (10 ^ 18) 10000 (2000 * 10 ^ 8) 1000) = Inl StalePrice
      \<and> fundLoanRequest feedState (feedEnv 3 (10 ^ 18) 10000 (2000 * 10 ^ 8) 1000) 1 = Inl StalePrice
      \<and> calculateAmountDueEth feedState (feedEnv 3 (10 ^ 18) 10000 (2000 * 10 ^ 8) 1000) 0 = Inl StalePrice"
    using price_feed_failures [of feedState "feedEnv 3 (10 ^ 18) 10000 (2000 * 10 ^ 8) 1000" _ ?rs StalePrice 1 0]
      v m feedState_reachable
    by (simp add: s feedEnv_def exampleLoan_def pendingRequest_def elapsedSince_def)
  have repay: "repayLoan feedState (feedEnv 1 (11 * 10 ^ 18) 10000 (2000 * 10 ^ 8) 1000) 0 0 = Inl StalePrice"
    using price_feed_failures [of feedState "feedEnv 1 (11 * 10 ^ 18) 10000 (2000 * 10 ^ 8) 1000" _ ?rs StalePrice 1 0 0]
      v feedState_reachable
    by (simp add: s feedEnv_def exampleLoan_def elapsedSince_def)
  have invalid: "getEthUsdPrice feedState (feedEnv 3 (10 ^ 18) 10000 0 9999) = Inl InvalidPrice
      \<and> fundLoanRequest feedState (feedEnv 3 (10 ^ 18) 10000 0 9999) 1 = Inl InvalidPrice"
    using price_feed_failures [of feedState "feedEnv 3 (10 ^ 18) 10000 0 9999" _ ?ri InvalidPrice 1]
      m feedState_reachable
    by (simp add: s feedEnv_def pendingRequest_def)
  have indep: "getEthUsdPrice (feedState\<lparr>demoFixedEthUsdPrice := 1\<rparr>) (feedEnv 3 (10 ^ 18) 10000 (2000 * 10 ^ 8) 9000)
       = getEthUsdPrice feedState (feedEnv 3 (10 ^ 18) 10000 (2000 * 10 ^ 8) 9000)"
    using price_feed_failures [of feedState "feedEnv 3 (10 ^ 18) 10000 (2000 * 10 ^ 8) 9000" 1]
    by (simp add: s)
  from demo stale repay invalid indep show ?thesis by blast
qed

section \<open>Pausing\<close>

text \<open>
  Claim C7. While the pause flag is set, every \<open>createLoanRequest\<close>, \<open>fundLoanRequest\<close> and
  \<open>repayLoan\<close> call fails with \<open>Paused\<close> and leaves the ledger unchanged. Liquidation is
  not gated: its outcome on a paused ledger is its outcome on the same ledger unpaused, the
  flag aside. Unpausing only clears the flag, and a pause followed by an unpause gives back
  exactly the ledger from before, so the three gated operations behave as if the pause had
  never happened.
\<close>

theorem pause_gates:
  "(reachable s \<and> paused s \<longrightarrow>
       createLoanRequest s e a d r mc ec pc ac u = Inl Paused
     \<and> fundLoanRequest s e requestId = Inl Paused
     \<and> repayLoan s e loanId amount = Inl Paused
     \<and> step s (e, CreateLoanRequest a d r mc ec pc ac u) = s
     \<and> step s (e, FundLoanRequest requestId) = s
     \<and> step s (e, RepayLoan loanId amount) = s)
   \<and> liquidateExpiredLoan (s\<lparr>paused := True\<rparr>) e loanId =
       mapState (\<lambda>s'. s'\<lparr>paused := True\<rparr>) (liquidateExpiredLoan (s\<lparr>paused := False\<rparr>) e loanId)
   \<and> (sender e2 = owner s \<longrightarrow> step s (e2, Unpause) = s\<lparr>paused := False\<rparr>)
   \<and> (\<not> paused s \<and> sender e1 = owner s \<and> sender e2 = owner s \<longrightarrow>
        step (step s (e1, Pause)) (e2, Unpause) = s)"
  using reachable_guard_free [of s]
  by (simp add: liquidate_ignores_pause)
    (auto simp add: createLoanRequest_def fundLoanRequest_def repayLoan_def nonReentrant_def
      whenNotPaused_def step_def pause_def unpause_def onlyOwner_def)

theorem pause_gates_witness:
  "createLoanRequest pausedState (exampleEnv 1 (20 * 10 ^ 18) 2000) (10 * 10 ^ 18) 400 5 0 [] 0 [] 0 = Inl Paused
   \<and> fundLoanRequest pausedState (exampleEnv 3 (10 ^ 18) 2000) 1 = Inl Paused
   \<and> repayLoan pausedState (exampleEnv 1 (11 * 10 ^ 18) 2000) 0 0 = Inl Paused
   \<and> step pausedState (exampleEnv 1 (11 * 10 ^ 18) 2000, RepayLoan 0 0) = pausedState
   \<and> liquidateExpiredLoan (exampleState\<lparr>paused := True\<rparr>) (exampleEnv 3 0 (1001 + 400 * 86400)) 0 =
       Inr (settledState\<lparr>paused := True\<rparr>,
            [Send 3 (6 * 10 ^ 17), Send 2 (194 * 10 ^ 17), Emit (LoanLiquidated 0 2 (20 * 10 ^ 18))])
   \<and> step (step exampleState (exampleEnv 9 0 1500, Pause)) (exampleEnv 9 0 1600, Unpause) = exampleState"
proof -
  have p: "paused pausedState"
    by (simp add: pausedState_def)
  have gates: "createLoanRequest pausedState (exampleEnv 1 (20 * 10 ^ 18) 2000) (10 * 10 ^ 18) 400 5 0 [] 0 [] 0 = Inl Paused
      \<and> step pausedState (exampleEnv 1 (11 * 10 ^ 18) 2000, RepayLoan 0 0) = pausedState
      \<and> repayLoan pausedState (exampleEnv 1 (11 * 10 ^ 18) 2000) 0 0 = Inl Paused"
    using pause_gates [of pausedState "exampleEnv 1 (20 * 10 ^ 18) 2000" "10 * 10 ^ 18" 400 5 0 "[]" 0 "[]" 0 1 0 0]
      pause_gates [of pausedState "exampleEnv 1 (11 * 10 ^ 18) 2000" "10 * 10 ^ 18" 400 5 0 "[]" 0 "[]" 0 1 0 0]
      p pausedState_reachable
    by simp
  have fund: "fundLoanRequest pausedState (exampleEnv 3 (10 ^ 18) 2000) 1 = Inl Paused"
    using pause_gates [where s = pausedState and e = "exampleEnv 3 (10 ^ 18) 2000" and requestId = 1]
      p pausedState_reachable
    by simp
  have unp: "step (step exampleState (exampleEnv 9 0 1500, Pause)) (exampleEnv 9 0 1600, Unpause) = exampleState"
    using pause_gates [where s = exampleState and ?e1.0 = "exampleEnv 9 0 1500" and ?e2.0 = "exampleEnv 9 0 1600"]
    by (simp add: exampleState_fields exampleEnv_def)
  have un: "liquidateExpiredLoan (exampleState\<lparr>paused := False\<rparr>) (exampleEnv 3 0 (1001 + 400 * 86400)) 0 =
       Inr (settledState, [Send 3 (6 * 10 ^ 17), Send 2 (194 * 10 ^ 17), Emit (LoanLiquidated 0 2 (20 * 10 ^ 18))])"
    by (simp add: liquidateExpiredLoan_def nonReentrant_def exampleState_def requestedState_def
        settledState_def constructor_def exampleLoan_def exampleEnv_def
        checked_mul_def checked_div_def checked_sub_def MAX_UINT256_def)
  have liq: "liquidateExpiredLoan (exampleState\<lparr>paused := True\<rparr>) (exampleEnv 3 0 (1001 + 400 * 86400)) 0 =
       Inr (settledState\<lparr>paused := True\<rparr>,
            [Send 3 (6 * 10 ^ 17), Send 2 (194 * 10 ^ 17), Emit (LoanLiquidated 0 2 (20 * 10 ^ 18))])"
    using pause_gates [where s = exampleState and e = "exampleEnv 3 0 (1001 + 400 * 86400)" and loanId = 0] un
    by (simp add: mapState_def)
  from gates fund unp liq show ?thesis by blast
qed

section \<open>Repayment and the overdue penalty\<close>

text \<open>
  Claim C8. For a repay call on a loan that is not repaid, with \<open>base\<close> the amount
  \<open>calculateAmountDueEth\<close> returns and \<open>p\<close> the current price: when \<open>now > end\<close> and the
  penalty rate is not zero, the amount due is \<open>base\<close> converted to reference value at the
  current price (\<open>base * p / 10^18\<close>, truncating), increased by \<open>penaltyBp / 10000\<close> of that
  value, converted back at the same price (the intermediate products fitting 256 bits); when
  \<open>now \<le> end\<close>, or the penalty rate is zero, it is \<open>base\<close> unchanged. That amount is what
  \<open>repayLoan\<close>, called by the borrower with a positive value on an unpaused platform,
  compares the attached value with, pays to the lender and reports in its event.
\<close>

theorem repay_overdue_penalty:
  assumes "reachable s" and "\<not> isRepaid (activeLoans s i)"
    and "calculateAmountDueEth s e i = Inr base"
    and "getEthUsdPrice s e = Inr p"
    and "timestamp e > endTime (activeLoans s i) \<and> overdueRepayPenaltyBp s \<noteq> 0
         \<longrightarrow> penaltyInRange base p (overdueRepayPenaltyBp s)"
    and "due = (if timestamp e > endTime (activeLoans s i) \<and> overdueRepayPenaltyBp s \<noteq> 0
                then specPenaltyDue base p (overdueRepayPenaltyBp s) else base)"
  shows "repayDue s e i = Inr due
    \<and> (\<not> paused s \<and> sender e = borrower (activeLoans s i) \<and> 0 < msgValue e \<longrightarrow>
         (msgValue e < due \<longrightarrow> repayLoan s e i amount = Inl InsufficientPayment)
       \<and> (due \<le> msgValue e \<and> callSucceeds e (lender (activeLoans s i)) due
           \<and> callSucceeds e (borrower (activeLoans s i)) (stake (activeLoans s i))
           \<and> (due < msgValue e \<longrightarrow> callSucceeds e (borrower (activeLoans s i)) (msgValue e - due))
          \<longrightarrow> repayLoan s e i amount =
                Inr (s\<lparr> activeLoans := (activeLoans s)(i := (activeLoans s i)\<lparr>isRepaid := True\<rparr>),
                        reentrancyStatus := NOT_ENTERED \<rparr>,
                     [Send (lender (activeLoans s i)) due,
                      Send (borrower (activeLoans s i)) (stake (activeLoans s i))]
                     @ (if due < msgValue e
                        then [Send (borrower (activeLoans s i)) (msgValue e - due)] else [])
                     @ [Emit (LoanRepaid i (borrower (activeLoans s i)) (lender (activeLoans s i)) due)])))"
proof -
  have pos: "0 < p"
    using assms(1,4) by (rule reachable_price_positive)
  have due: "repayDue s e i = Inr due"
    using assms(3-6) pos applyOverduePenaltyEth_formula [of s e p base i]
    by (simp add: repayDue_def)
  then have due': "repayDue (s\<lparr>reentrancyStatus := ENTERED\<rparr>) e i = Inr due"
    by (simp add: repayDue_frame [of "s\<lparr>reentrancyStatus := ENTERED\<rparr>" s])
  show ?thesis
    using assms(2) due reachable_guard_free [OF assms(1)]
    by (auto simp add: repayLoan_def nonReentrant_def whenNotPaused_def Let_def due' checked_sub_ok)
qed

theorem repay_overdue_penalty_witness:
  "repayDue exampleState (exampleEnv 1 (11 * 10 ^ 18) (1000 + 401 * 86400)) 0 = Inr 10865794520547945204
   \<and> repayLoan exampleState (exampleEnv 1 (11 * 10 ^ 18) (1000 + 401 * 86400)) 0 0 =
       Inr (settledState, [Send 2 10865794520547945204, Send 1 (20 * 10 ^ 18),
                           Send 1 134205479452054796, Emit (LoanRepaid 0 1 2 10865794520547945204)])
   \<and> repayLoan exampleState (exampleEnv 1 (10 * 10 ^ 18) (1000 + 401 * 86400)) 0 0 = Inl InsufficientPayment
   \<and> repayDue exampleState (exampleEnv 1 (11 * 10 ^ 18) (1000 + 365 * 86400)) 0 = Inr (105 * 10 ^ 17)"
proof -
  let ?late = "1000 + 401 * 86400 :: nat"
  let ?year = "1000 + 365 * 86400 :: nat"
  note s = exampleState_fields
  note r = exampleState_reachable
  have u: "\<not> isRepaid (activeLoans exampleState 0)"
    by (simp add: s exampleLoan_def)
  have base: "calculateAmountDueEth exampleState (exampleEnv w v ?late) 0 = Inr 10549315068493150684" for w v
    by (simp add: calculateAmountDueEth_def s exampleLoan_def exampleEnv_def getEthUsdPrice_def
        checked_mul_def checked_add_def checked_div_def SCALE_def YEAR_def MAX_UINT256_def)
  have base': "calculateAmountDueEth exampleState (exampleEnv w v ?year) 0 = Inr (105 * 10 ^ 17)" for w v
    by (simp add: calculateAmountDueEth_def s exampleLoan_def exampleEnv_def getEthUsdPrice_def
        checked_mul_def checked_add_def checked_div_def SCALE_def YEAR_def MAX_UINT256_def)
  have pr: "penaltyInRange 10549315068493150684 (2000 * 10 ^ 18) 300"
    by (simp add: penaltyInRange_def MAX_UINT256_def)
  have st: "exampleState\<lparr> activeLoans := (activeLoans exampleState)(0 := exampleLoan\<lparr>isRepaid := True\<rparr>),
                     reentrancyStatus := NOT_ENTERED \<rparr> = settledState"
    by (simp add: settledState_def exampleState_def requestedState_def constructor_def)
  have late: "repayDue exampleState (exampleEnv 1 (11 * 10 ^ 18) ?late) 0 = Inr 10865794520547945204
   \<and> repayLoan exampleState (exampleEnv 1 (11 * 10 ^ 18) ?late) 0 0 =
       Inr (settledState, [Send 2 10865794520547945204, Send 1 (20 * 10 ^ 18),
                           Send 1 134205479452054796, Emit (LoanRepaid 0 1 2 10865794520547945204)])"
    using repay_overdue_penalty [OF r u base [of 1 "11 * 10 ^ 18"] examplePrice [of 1 "11 * 10 ^ 18" ?late],
        where due = 10865794520547945204 and amount = 0] pr st
    by (simp add: s exampleLoan_def exampleEnv_def specPenaltyDue_def)
  have short: "repayLoan exampleState (exampleEnv 1 (10 * 10 ^ 18) ?late) 0 0 = Inl InsufficientPayment"
    using repay_overdue_penalty [OF r u base [of 1 "10 * 10 ^ 18"] examplePrice [of 1 "10 * 10 ^ 18" ?late],
        where due = 10865794520547945204 and amount = 0] pr
    by (simp add: s exampleLoan_def exampleEnv_def specPenaltyDue_def)
  have intime: "repayDue exampleState (exampleEnv 1 (11 * 10 ^ 18) ?year) 0 = Inr (105 * 10 ^ 17)"
    using repay_overdue_penalty [OF r u base' [of 1 "11 * 10 ^ 18"] examplePrice [of 1 "11 * 10 ^ 18" ?year],
        where due = "105 * 10 ^ 17" and amount = 0]
    by (simp add: s exampleLoan_def exampleEnv_def)
  from late short intime show ?thesis by blast
qed

section \<open>Liquidating a loan id that was never allocated\<close>

text \<open>
  Claim C9, as amended. Liquidating a loan id that no funding has allocated (an id at or
  above the next loan id) never fails with a not-found error. As long as the record of that
  id is not marked repaid it is the zero-initialised one (\<open>isRepaid = false\<close>,
  \<open>endTime = 0\<close>), so at any time \<open>now > 0\<close> the call succeeds (the two zero-value
  transfers going through): it marks the phantom record repaid, pays a zero bonus to the
  caller and zero collateral to the zero address, and emits the liquidation event. Once the
  record is marked repaid, as that first liquidation leaves it, it is the zero record with
  the flag set, and every further liquidation of the id fails with \<open>AlreadyRepaid\<close>.
\<close>

theorem liquidate_unallocated_loan:
  assumes "reachable s" and "totalLoans s \<le> i"
  shows "(\<not> isRepaid (activeLoans s i) \<longrightarrow>
            activeLoans s i = zeroLoan
          \<and> (0 < timestamp e \<and> callSucceeds e (sender e) 0 \<and> callSucceeds e 0 0 \<longrightarrow>
               liquidateExpiredLoan s e i =
                 Inr (s\<lparr> activeLoans := (activeLoans s)(i := zeroLoan\<lparr>isRepaid := True\<rparr>),
                         reentrancyStatus := NOT_ENTERED \<rparr>,
                      [Send (sender e) 0, Send 0 0, Emit (LoanLiquidated i 0 0)])))
    \<and> (isRepaid (activeLoans s i) \<longrightarrow>
            activeLoans s i = zeroLoan\<lparr>isRepaid := True\<rparr>
          \<and> liquidateExpiredLoan s e i = Inl AlreadyRepaid)"
proof -
  have z: "activeLoans s i = zeroLoan \<or> activeLoans s i = zeroLoan\<lparr>isRepaid := True\<rparr>"
    using reachable_unallocated [OF assms(1)] assms(2) by (simp add: unallocatedLoansZero_def)
  have g: "reentrancyStatus s \<noteq> ENTERED"
    using assms(1) by (rule reachable_guard_free)
  have fresh: "activeLoans s i = zeroLoan" if "\<not> isRepaid (activeLoans s i)"
    using z that by auto
  have first: "liquidateExpiredLoan s e i =
      Inr (s\<lparr> activeLoans := (activeLoans s)(i := zeroLoan\<lparr>isRepaid := True\<rparr>),
              reentrancyStatus := NOT_ENTERED \<rparr>,
           [Send (sender e) 0, Send 0 0, Emit (LoanLiquidated i 0 0)])"
    if "\<not> isRepaid (activeLoans s i)"
      and "0 < timestamp e \<and> callSucceeds e (sender e) 0 \<and> callSucceeds e 0 0"
    using fresh [OF that(1)] that(2) g
    by (simp add: liquidateExpiredLoan_def nonReentrant_def Let_def checked_mul_ok checked_div_ok
        checked_sub_ok zeroLoan_def)
  have marked: "activeLoans s i = zeroLoan\<lparr>isRepaid := True\<rparr>" if "isRepaid (activeLoans s i)"
    using z that by (auto simp add: zeroLoan_def)
  have again: "liquidateExpiredLoan s e i = Inl AlreadyRepaid" if "isRepaid (activeLoans s i)"
    using that g by (simp add: liquidateExpiredLoan_def nonReentrant_def Let_def)
  from fresh first marked again show ?thesis by blast
qed

theorem liquidate_unallocated_loan_witness:
  "activeLoans exampleState 5 = zeroLoan
   \<and> liquidateExpiredLoan exampleState (exampleEnv 3 0 2000) 5 =
       Inr (phantomState, [Send 3 0, Send 0 0, Emit (LoanLiquidated 5 0 0)])
   \<and> activeLoans phantomState 5 = zeroLoan\<lparr>isRepaid := True\<rparr>
   \<and> liquidateExpiredLoan phantomState (exampleEnv 4 0 4000) 5 = Inl AlreadyRepaid"
proof -
  have n: "totalLoans exampleState \<le> 5" "totalLoans phantomState \<le> 5"
    by (simp_all add: phantomState_def exampleState_fields)
  have u: "\<not> isRepaid (activeLoans exampleState 5)"
    by (simp add: exampleState_def zeroLoan_def)
  have m: "isRepaid (activeLoans phantomState 5)"
    by (simp add: phantomState_def)
  have st: "exampleState\<lparr> activeLoans := (activeLoans exampleState)(5 := zeroLoan\<lparr>isRepaid := True\<rparr>),
                     reentrancyStatus := NOT_ENTERED \<rparr> = phantomState"
    by (simp add: phantomState_def exampleState_def requestedState_def constructor_def)
  have a: "activeLoans exampleState 5 = zeroLoan
     \<and> liquidateExpiredLoan exampleState (exampleEnv 3 0 2000) 5 =
       Inr (phantomState, [Send 3 0, Send 0 0, Emit (LoanLiquidated 5 0 0)])"
    using liquidate_unallocated_loan [OF exampleState_reachable n(1), of "exampleEnv 3 0 2000"] u st
    by (simp add: exampleEnv_def)
  have b: "activeLoans phantomState 5 = zeroLoan\<lparr>isRepaid := True\<rparr>
     \<and> liquidateExpiredLoan phantomState (exampleEnv 4 0 4000) 5 = Inl AlreadyRepaid"
    using liquidate_unallocated_loan [OF phantomState_reachable n(2), of "exampleEnv 4 0 4000"] m
    by simp
  from a b show ?thesis by blast
qed

text \<open>
  Claim C9 as stated fails: id 5 was never allocated by a funding (the next loan id is 1),
  yet after one liquidation of it a second one, at a time greater than 0, fails with the
  state-conflict error \<open>AlreadyRepaid\<close>.
\<close>

theorem liquidate_unallocated_twice:
  "reachable phantomState
   \<and> step exampleState (exampleEnv 3 0 2000, LiquidateExpiredLoan 5) = phantomState
   \<and> totalLoans phantomState \<le> 5
   \<and> 0 < timestamp (exampleEnv 3 0 3000)
   \<and> liquidateExpiredLoan phantomState (exampleEnv 3 0 3000) 5 = Inl AlreadyRepaid"
  using phantomState_step phantomState_reachable
  by (simp add: liquidateExpiredLoan_def nonReentrant_def Let_def phantomState_def
      exampleState_fields exampleEnv_def)

section \<open>The unused repay-amount argument\<close>

text \<open>
  Claim C10. The declared repay-amount parameter of \<open>repayLoan\<close> has no effect: two calls
  that agree on the ledger state, the caller, the attached value, the time, the price and the
  loan id, and differ only in the repay-amount argument, have the same outcome (the same
  revert, or the same new state, the same transfers and the same event). Whether the payment
  suffices and what is refunded is decided from the attached value alone.
\<close>

theorem repayLoan_ignores_repayAmount:
  "repayLoan s e loanId amountA = repayLoan s e loanId amountB"
  by (simp add: repayLoan_def)

end
